theory Spec2Isabelle
  imports Main "HOL-Library.Word"
begin

unbundle bit_operations_syntax

section \<open>The BasicStation backend of the gateway bridge\<close>

text \<open>
  A shallow embedding of \<^verbatim>\<open>internal/backend/basicstation/backend.go\<close>. Go values are
  modelled as follows: \<^verbatim>\<open>[]byte\<close> is a list of 8-bit words, \<^verbatim>\<open>uint32\<close> a 32-bit word,
  a Go \<^verbatim>\<open>error\<close> is its message, \<^verbatim>\<open>nil\<close> is \<open>None\<close>, and a function returning
  \<^verbatim>\<open>(T, error)\<close> returns a sum with the error on the left. Time is the wall clock in
  nanoseconds, handed to every operation that reads it. Logging, the Prometheus
  counters and the read and write deadlines are left out.
\<close>

type_synonym byte = "8 word"
type_synonym bytes = "byte list"
type_synonym uint32 = "32 word"
type_synonym error = string
type_synonym EUI64 = bytes
type_synonym conn = nat

subsection \<open>Library functions used by the backend\<close>

text \<open>\<^verbatim>\<open>errors.Wrap\<close> of pkg/errors: a nil error stays nil, any other error gets the
  message in front.\<close>

definition wrapped :: "error \<Rightarrow> string \<Rightarrow> error" where
  "wrapped e message = message @ '': '' @ e"

definition errors_Wrap :: "error option \<Rightarrow> string \<Rightarrow> error option" where
  "errors_Wrap err message =
     (case err of None \<Rightarrow> None | Some e \<Rightarrow> Some (wrapped e message))"

text \<open>\<^verbatim>\<open>encoding/hex\<close>: the lowercase encoder and the decoder that accepts both cases.\<close>

definition hextable :: string where
  "hextable = ''0123456789abcdef''"

definition hex_EncodeToString :: "bytes \<Rightarrow> string" where
  "hex_EncodeToString src =
     concat (map (\<lambda>v. [hextable ! unat (drop_bit 4 v), hextable ! unat (v AND 15)]) src)"

definition fromHexChar :: "char \<Rightarrow> byte option" where
  "fromHexChar c =
     (let n = (of_char c :: nat) in
      if 48 \<le> n \<and> n \<le> 57 then Some (of_nat (n - 48))
      else if 97 \<le> n \<and> n \<le> 102 then Some (of_nat (n - 97 + 10))
      else if 65 \<le> n \<and> n \<le> 70 then Some (of_nat (n - 65 + 10))
      else None)"

fun hex_DecodeString :: "string \<Rightarrow> error + bytes" where
  "hex_DecodeString [] = Inr []"
| "hex_DecodeString [p] =
     (case fromHexChar p of
        None \<Rightarrow> Inl ''encoding/hex: invalid byte''
      | Some a \<Rightarrow> Inl ''encoding/hex: odd length hex string'')"
| "hex_DecodeString (p # q # rest) =
     (case fromHexChar p of
        None \<Rightarrow> Inl ''encoding/hex: invalid byte''
      | Some a \<Rightarrow>
          (case fromHexChar q of
             None \<Rightarrow> Inl ''encoding/hex: invalid byte''
           | Some b \<Rightarrow>
               (case hex_DecodeString rest of
                  Inl e \<Rightarrow> Inl e
                | Inr bs \<Rightarrow> Inr ((push_bit 4 a OR b) # bs))))"

text \<open>Go's \<^verbatim>\<open>copy(dst[:], src)\<close> into a zeroed \<^verbatim>\<open>[8]byte\<close>: the first eight bytes of the
  source, padded with zeros when the source is shorter.\<close>

definition copy8 :: "bytes \<Rightarrow> EUI64" where
  "copy8 src = take 8 src @ replicate (8 - length src) 0"

text \<open>\<^verbatim>\<open>lorawan.EUI64\<close>: \<^verbatim>\<open>String\<close> is the hex encoding, \<^verbatim>\<open>UnmarshalText\<close> decodes hex
  and insists on exactly eight bytes. \<^verbatim>\<open>lorawan.NetID\<close> does the same with three bytes.\<close>

definition EUI64_String :: "EUI64 \<Rightarrow> string" where
  "EUI64_String e = hex_EncodeToString e"

definition EUI64_UnmarshalText :: "string \<Rightarrow> error + EUI64" where
  "EUI64_UnmarshalText text =
     (case hex_DecodeString text of
        Inl e \<Rightarrow> Inl e
      | Inr b \<Rightarrow> if length b \<noteq> 8 then Inl ''lorawan: exactly 8 bytes are expected'' else Inr b)"

definition NetID_UnmarshalText :: "string \<Rightarrow> error + bytes" where
  "NetID_UnmarshalText text =
     (case hex_DecodeString text of
        Inl e \<Rightarrow> Inl e
      | Inr b \<Rightarrow> if length b \<noteq> 3 then Inl ''lorawan: exactly 3 bytes are expected'' else Inr b)"

text \<open>\<^verbatim>\<open>fmt.Sprintf("%d", n)\<close> for an unsigned number: its decimal digits.\<close>

definition digit :: "nat \<Rightarrow> char" where
  "digit d = ''0123456789'' ! d"

function decimal :: "nat \<Rightarrow> string" where
  "decimal n = (if n < 10 then [digit n] else decimal (n div 10) @ [digit (n mod 10)])"
  by pat_completeness auto
termination
  by (relation "measure id") auto

declare decimal.simps [simp del]

definition Sprintf_d :: "uint32 \<Rightarrow> string" where
  "Sprintf_d n = decimal (unat n)"

text \<open>\<^verbatim>\<open>strings.Split\<close> with a one-character separator and \<^verbatim>\<open>strings.HasPrefix\<close>.\<close>

fun strings_Split :: "string \<Rightarrow> char \<Rightarrow> string list" where
  "strings_Split [] sep = [[]]"
| "strings_Split (c # cs) sep =
     (if c = sep then [] # strings_Split cs sep
      else (case strings_Split cs sep of
              [] \<Rightarrow> [[c]]
            | p # ps \<Rightarrow> (c # p) # ps))"

definition HasPrefix :: "'a list \<Rightarrow> 'a list \<Rightarrow> bool" where
  "HasPrefix s pre = (take (length pre) s = pre)"

text \<open>\<^verbatim>\<open>binary.BigEndian.Uint16\<close> of a two-byte slice.\<close>

definition BigEndian_Uint16 :: "byte \<Rightarrow> byte \<Rightarrow> 16 word" where
  "BigEndian_Uint16 b0 b1 = ucast b1 OR push_bit 8 (ucast b0)"

text \<open>The frame types of gorilla/websocket.\<close>

definition TextMessage :: nat where "TextMessage = 1"
definition BinaryMessage :: nat where "BinaryMessage = 2"

subsection \<open>The expiring cache (patrickmn/go-cache)\<close>

text \<open>
  An item holds its value and the instant it expires at (0: never). \<^verbatim>\<open>Get\<close> and
  \<^verbatim>\<open>IncrementUint32\<close> treat an expired item as absent; an increment keeps the
  expiration the item was stored with. The janitor only removes items that are
  expired already, which no lookup can observe, so it is left out.
\<close>

record 'v Item =
  Object :: 'v
  Expiration :: int

record 'v cache =
  defaultExpiration :: int
  items :: "string \<rightharpoonup> 'v Item"

definition time_Minute :: int where
  "time_Minute = 60000000000"

definition cache_New :: "int \<Rightarrow> 'v cache" where
  "cache_New de = \<lparr>defaultExpiration = (if de = 0 then - 1 else de), items = Map.empty\<rparr>"

definition Expired :: "int \<Rightarrow> 'v Item \<Rightarrow> bool" where
  "Expired now item = (if Expiration item = 0 then False else now > Expiration item)"

definition cache_Set :: "int \<Rightarrow> 'v cache \<Rightarrow> string \<Rightarrow> 'v \<Rightarrow> int \<Rightarrow> 'v cache" where
  "cache_Set now c k x d =
     (let d' = (if d = 0 then defaultExpiration c else d);
          e = (if d' > 0 then now + d' else 0)
      in c\<lparr>items := (items c)(k \<mapsto> \<lparr>Object = x, Expiration = e\<rparr>)\<rparr>)"

definition SetDefault :: "int \<Rightarrow> 'v cache \<Rightarrow> string \<Rightarrow> 'v \<Rightarrow> 'v cache" where
  "SetDefault now c k x = cache_Set now c k x 0"

definition cache_Get :: "int \<Rightarrow> 'v cache \<Rightarrow> string \<Rightarrow> 'v option" where
  "cache_Get now c k =
     (case items c k of
        None \<Rightarrow> None
      | Some item \<Rightarrow>
          if Expiration item > 0 \<and> now > Expiration item then None else Some (Object item))"

definition IncrementUint32 ::
  "int \<Rightarrow> uint32 cache \<Rightarrow> string \<Rightarrow> uint32 \<Rightarrow> error + (uint32 \<times> uint32 cache)" where
  "IncrementUint32 now c k n =
     (case items c k of
        None \<Rightarrow> Inl (''Item '' @ k @ '' not found'')
      | Some v \<Rightarrow>
          if Expired now v then Inl (''Item '' @ k @ '' not found'')
          else (let nv = Object v + n
                in Inr (nv, c\<lparr>items := (items c)(k \<mapsto> v\<lparr>Object := nv\<rparr>)\<rparr>)))"

definition cache_Delete :: "'v cache \<Rightarrow> string \<Rightarrow> 'v cache" where
  "cache_Delete c k = c\<lparr>items := (items c)(k := None)\<rparr>"

subsection \<open>Messages exchanged with the integration (chirpstack-api, package gw)\<close>

text \<open>Only the fields that the backend reads or writes are kept.\<close>

record DownlinkFrame =
  df_Token :: uint32
  df_GatewayId :: bytes
  df_DownlinkId :: bytes
  df_PhyPayload :: bytes

record DownlinkTXAck =
  ack_GatewayId :: bytes
  ack_Token :: uint32
  ack_DownlinkId :: bytes

record UplinkFrame =
  up_PhyPayload :: bytes
  up_GatewayId :: bytes
  up_UplinkId :: bytes

record GatewayStats =
  st_GatewayId :: bytes
  st_Time :: int
  st_StatsId :: bytes
  RxPacketsReceived :: uint32
  RxPacketsReceivedOk :: uint32
  TxPacketsReceived :: uint32
  TxPacketsEmitted :: uint32

record RawPacketForwarderEvent =
  ev_GatewayId :: bytes
  ev_RawId :: bytes
  ev_Payload :: bytes

record RawPacketForwarderCommand =
  cmd_GatewayId :: bytes
  cmd_RawId :: bytes
  cmd_Payload :: bytes

text \<open>What the backend hands to the callbacks of the integration.\<close>

datatype event =
  EvUplinkFrame UplinkFrame
| EvDownlinkTXAck DownlinkTXAck
| EvGatewayStats GatewayStats
| EvRawPacketForwarderEvent RawPacketForwarderEvent

subsection \<open>The wire structs (package structs)\<close>

text \<open>
  Package \<^verbatim>\<open>structs\<close> is not part of the sources at hand. The structs whose fields the
  backend touches are records with those fields; the uplink structs and the downlink
  struct are opaque to the backend and stay type parameters.
\<close>

record Version =
  Station :: string
  Firmware :: string
  Package :: string
  Model :: string
  Protocol :: int

record DownlinkTransmitted =
  DIID :: uint32

record TimeSyncRequest =
  TxTime :: int

record TimeSyncResponse =
  ts_MessageType :: string
  ts_TxTime :: int
  ts_GPSTime :: int

record RouterInfoRequest =
  req_Router :: EUI64

record RouterInfoResponse =
  Router :: EUI64
  Muxs :: EUI64
  URI :: string
  Error :: string

text \<open>Modelled from the spec: the message-type constants of package \<^verbatim>\<open>structs\<close>, which
  are missing from the sources; the values are the \<^verbatim>\<open>msgtype\<close> strings of the spec's
  dispatcher table.\<close>

definition VersionMessage :: string where "VersionMessage = ''version''"
definition UplinkDataFrameMessage :: string where "UplinkDataFrameMessage = ''updf''"
definition JoinRequestMessage :: string where "JoinRequestMessage = ''jreq''"
definition ProprietaryDataFrameMessage :: string where "ProprietaryDataFrameMessage = ''propdf''"
definition DownlinkTransmittedMessage :: string where "DownlinkTransmittedMessage = ''dntxed''"
definition TimeSyncMessage :: string where "TimeSyncMessage = ''timesync''"

text \<open>
  What the backend takes from the rest of its package and from package \<^verbatim>\<open>structs\<close>,
  as parameters: the package-level variable \<^verbatim>\<open>err\<close> that \<^verbatim>\<open>sendDataToGWviaSocket\<close>
  reads (no declaration of it is in scope in the file), the message-type reader, the
  JSON decoders of the wire structs, the converters to and from the integration's
  messages, and the JSON encoders of what is sent to a gateway.
\<close>

record ('u, 'j, 'p, 'd) package =
  err :: "error option"
  GetMessageType :: "bytes \<Rightarrow> error + string"
  unmarshal_Version :: "bytes \<Rightarrow> error + Version"
  unmarshal_UplinkDataFrame :: "bytes \<Rightarrow> error + 'u"
  unmarshal_JoinRequest :: "bytes \<Rightarrow> error + 'j"
  unmarshal_UplinkProprietaryFrame :: "bytes \<Rightarrow> error + 'p"
  unmarshal_DownlinkTransmitted :: "bytes \<Rightarrow> error + DownlinkTransmitted"
  unmarshal_TimeSyncRequest :: "bytes \<Rightarrow> error + TimeSyncRequest"
  UplinkDataFrameToProto :: "EUI64 \<Rightarrow> 'u \<Rightarrow> error + UplinkFrame"
  JoinRequestToProto :: "EUI64 \<Rightarrow> 'j \<Rightarrow> error + UplinkFrame"
  UplinkProprietaryFrameToProto :: "EUI64 \<Rightarrow> 'p \<Rightarrow> error + UplinkFrame"
  DownlinkTransmittedToProto :: "EUI64 \<Rightarrow> DownlinkTransmitted \<Rightarrow> error + DownlinkTXAck"
  DownlinkFrameFromProto :: "DownlinkFrame \<Rightarrow> error + 'd"
  marshal_DownlinkFrame :: "'d \<Rightarrow> error + bytes"
  marshal_routerConfig :: "error + bytes"
  marshal_TimeSyncResponse :: "TimeSyncResponse \<Rightarrow> error + bytes"
  marshal_RouterInfoResponse :: "RouterInfoResponse \<Rightarrow> error + bytes"

subsection \<open>The gateway registry\<close>

text \<open>
  Modelled from the spec: the registry (type \<^verbatim>\<open>gateways\<close> with \<^verbatim>\<open>get\<close>, \<^verbatim>\<open>set\<close>,
  \<^verbatim>\<open>remove\<close> and \<^verbatim>\<open>reset\<close>) is missing from the sources. Following section 4.1 of the
  spec: \<^verbatim>\<open>get\<close> returns the entry or a not-found error; \<^verbatim>\<open>set\<close> returns an
  already-connected error without overwriting when the existing entry has a live
  connection; \<^verbatim>\<open>remove\<close> drops the entry; \<^verbatim>\<open>reset\<close> keeps the key and nulls the
  connection. An entry is its optional connection; its mutex has no sequential meaning.
\<close>

record gateway =
  conn :: "conn option"

type_synonym gateways = "EUI64 \<rightharpoonup> gateway"

definition gateways_get :: "gateways \<Rightarrow> EUI64 \<Rightarrow> error + gateway" where
  "gateways_get g eui =
     (case g eui of None \<Rightarrow> Inl ''gateway does not exist'' | Some gw \<Rightarrow> Inr gw)"

definition gateways_set :: "gateways \<Rightarrow> EUI64 \<Rightarrow> gateway \<Rightarrow> error + gateways" where
  "gateways_set g eui entry =
     (case g eui of
        None \<Rightarrow> Inr (g(eui \<mapsto> entry))
      | Some old \<Rightarrow>
          if conn old \<noteq> None then Inl ''gateway is already connected''
          else Inr (g(eui \<mapsto> entry)))"

definition gateways_remove :: "gateways \<Rightarrow> EUI64 \<Rightarrow> gateways" where
  "gateways_remove g eui = g(eui := None)"

definition gateways_reset :: "gateways \<Rightarrow> EUI64 \<Rightarrow> gateways" where
  "gateways_reset g eui =
     (case g eui of None \<Rightarrow> g | Some old \<Rightarrow> g(eui \<mapsto> old\<lparr>conn := None\<rparr>))"

subsection \<open>The backend\<close>

text \<open>
  The fields of \<^verbatim>\<open>Backend\<close> that the modelled code reads or writes. A callback slot is
  the flag whether a function is installed; what the callbacks are called with is
  appended to \<open>emitted\<close>, and every \<^verbatim>\<open>WriteMessage\<close> on a socket is appended to
  \<open>written\<close> (connection, frame type, data), whether the write then succeeds or not.
\<close>

record Backend =
  caCert :: string
  tlsCert :: string
  tlsKey :: string
  scheme :: string
  gateways :: gateways
  downlinkTxAckFunc :: bool
  uplinkFrameFunc :: bool
  gatewayStatsFunc :: bool
  rawPacketForwarderEventFunc :: bool
  statsCache :: "uint32 cache"
  diidCache :: "bytes cache"
  singleMode :: bool
  singleGwID :: EUI64
  emitted :: "event list"
  written :: "(conn \<times> nat \<times> bytes) list"

text \<open>
  What one call reads from its environment: the clock (nanoseconds), the result of
  \<^verbatim>\<open>uuid.NewV4\<close>, the result of reading two random bytes, the result of the socket
  write it may perform, and the GPS time (microseconds) of the clock reading.
\<close>

record env =
  clock :: int
  newUUID :: "error + bytes"
  randRead :: "error + (byte \<times> byte)"
  writeResult :: "error option"
  gpsTime :: int

definition emit :: "Backend \<Rightarrow> event \<Rightarrow> Backend" where
  "emit b ev = b\<lparr>emitted := emitted b @ [ev]\<rparr>"

subsection \<open>Counters\<close>

definition incrementRxStats :: "env \<Rightarrow> Backend \<Rightarrow> EUI64 \<Rightarrow> Backend" where
  "incrementRxStats env b eui =
     (let idStr = EUI64_String eui;
          c1 = (case IncrementUint32 (clock env) (statsCache b) (idStr @ '':rx'') 1 of
                  Inl e \<Rightarrow> SetDefault (clock env) (statsCache b) (idStr @ '':rx'') 1
                | Inr (v, c) \<Rightarrow> c);
          c2 = (case IncrementUint32 (clock env) c1 (idStr @ '':rxOK'') 1 of
                  Inl e \<Rightarrow> SetDefault (clock env) c1 (idStr @ '':rxOK'') 1
                | Inr (v, c) \<Rightarrow> c)
      in b\<lparr>statsCache := c2\<rparr>)"

definition incrementTxOkStats :: "env \<Rightarrow> Backend \<Rightarrow> EUI64 \<Rightarrow> Backend" where
  "incrementTxOkStats env b eui =
     (let idStr = EUI64_String eui
      in case IncrementUint32 (clock env) (statsCache b) (idStr @ ''txOK'') 1 of
           Inl e \<Rightarrow> b\<lparr>statsCache := SetDefault (clock env) (statsCache b) (idStr @ '':txOK'') 1\<rparr>
         | Inr (v, c) \<Rightarrow> b\<lparr>statsCache := c\<rparr>)"

definition incrementTxStats :: "env \<Rightarrow> Backend \<Rightarrow> EUI64 \<Rightarrow> Backend" where
  "incrementTxStats env b eui =
     (let idStr = EUI64_String eui
      in case IncrementUint32 (clock env) (statsCache b) (idStr @ ''tx'') 1 of
           Inl e \<Rightarrow> b\<lparr>statsCache := SetDefault (clock env) (statsCache b) (idStr @ '':tx'') 1\<rparr>
         | Inr (v, c) \<Rightarrow> b\<lparr>statsCache := c\<rparr>)"

subsection \<open>Writing to a gateway\<close>

definition sendDataToGWviaSocket ::
  "('u, 'j, 'p, 'd) package \<Rightarrow> env \<Rightarrow> Backend \<Rightarrow> gateway \<Rightarrow> nat \<Rightarrow> bytes
     \<Rightarrow> error option \<times> Backend" where
  "sendDataToGWviaSocket L env b gw messageType data =
     (case conn gw of
        None \<Rightarrow> (errors_Wrap (err L) ''there is no connection with the basic station'', b)
      | Some c \<Rightarrow>
          (errors_Wrap (writeResult env) ''send message to gateway error'',
           b\<lparr>written := written b @ [(c, messageType, data)]\<rparr>))"

text \<open>\<^verbatim>\<open>sendToGateway\<close> takes the result of \<^verbatim>\<open>json.Marshal(v)\<close> in place of \<^verbatim>\<open>v\<close>.\<close>

definition sendToGateway ::
  "('u, 'j, 'p, 'd) package \<Rightarrow> env \<Rightarrow> Backend \<Rightarrow> EUI64 \<Rightarrow> error + bytes
     \<Rightarrow> error option \<times> Backend" where
  "sendToGateway L env b gatewayID v =
     (case gateways_get (gateways b) gatewayID of
        Inl e \<Rightarrow> (Some (wrapped e ''get gateway error''), b)
      | Inr gw \<Rightarrow>
          (case v of
             Inl e \<Rightarrow> (Some (wrapped e ''marshal json error''), b)
           | Inr bb \<Rightarrow> sendDataToGWviaSocket L env b gw TextMessage bb))"

definition sendRawToGateway ::
  "('u, 'j, 'p, 'd) package \<Rightarrow> env \<Rightarrow> Backend \<Rightarrow> EUI64 \<Rightarrow> nat \<Rightarrow> bytes
     \<Rightarrow> error option \<times> Backend" where
  "sendRawToGateway L env b gatewayID messageType data =
     (case gateways_get (gateways b) gatewayID of
        Inl e \<Rightarrow> (Some (wrapped e ''get gateway error''), b)
      | Inr gw \<Rightarrow> sendDataToGWviaSocket L env b gw messageType data)"

subsection \<open>Downlink path\<close>

text \<open>The token of the frame, a fresh 16-bit one when the frame carries token 0.\<close>

definition assignToken :: "env \<Rightarrow> DownlinkFrame \<Rightarrow> error + DownlinkFrame" where
  "assignToken env df =
     (if df_Token df = 0 then
        (case randRead env of
           Inl e \<Rightarrow> Inl (wrapped e ''read random bytes error'')
         | Inr (b0, b1) \<Rightarrow> Inr (df\<lparr>df_Token := ucast (BigEndian_Uint16 b0 b1)\<rparr>))
      else Inr df)"

definition SendDownlinkFrame ::
  "('u, 'j, 'p, 'd) package \<Rightarrow> env \<Rightarrow> Backend \<Rightarrow> DownlinkFrame \<Rightarrow> error option \<times> Backend" where
  "SendDownlinkFrame L env b df0 =
     (case assignToken env df0 of
        Inl e \<Rightarrow> (Some e, b)
      | Inr df \<Rightarrow>
          (case DownlinkFrameFromProto L df of
             Inl e \<Rightarrow> (Some (wrapped e ''downlink frame from proto error''), b)
           | Inr pl \<Rightarrow>
               (let gatewayID = copy8 (df_GatewayId df);
                    b1 = incrementTxStats env b gatewayID;
                    b2 = b1\<lparr>diidCache :=
                           SetDefault (clock env) (diidCache b1) (Sprintf_d (df_Token df))
                             (df_DownlinkId df)\<rparr>
                in case sendToGateway L env b2 gatewayID (marshal_DownlinkFrame L pl) of
                     (r, b3) \<Rightarrow> (errors_Wrap r ''send to gateway error'', b3))))"

definition RawPacketForwarderCommand ::
  "('u, 'j, 'p, 'd) package \<Rightarrow> env \<Rightarrow> Backend \<Rightarrow> RawPacketForwarderCommand
     \<Rightarrow> error option \<times> Backend" where
  "RawPacketForwarderCommand L env b pl =
     (let gatewayID = copy8 (cmd_GatewayId pl)
      in if length (cmd_Payload pl) = 0
         then (Some ''raw packet-forwarder command payload is empty'', b)
         else (let mt = (if HasPrefix (cmd_Payload pl) [123] then TextMessage
                         else BinaryMessage)
               in case sendRawToGateway L env b gatewayID mt (cmd_Payload pl) of
                    (r, b') \<Rightarrow>
                      (errors_Wrap r ''send raw packet-forwarder command to gateway error'',
                       b')))"

subsection \<open>Handlers of the messages a gateway sends\<close>

definition handleRawPacketForwarderEvent :: "env \<Rightarrow> Backend \<Rightarrow> EUI64 \<Rightarrow> bytes \<Rightarrow> Backend" where
  "handleRawPacketForwarderEvent env b gatewayID pl =
     (case newUUID env of
        Inl e \<Rightarrow> b
      | Inr rawID \<Rightarrow>
          (let rawEvent = \<lparr>ev_GatewayId = gatewayID, ev_RawId = rawID, ev_Payload = pl\<rparr>
           in if rawPacketForwarderEventFunc b
              then emit b (EvRawPacketForwarderEvent rawEvent) else b))"

definition handleVersion ::
  "('u, 'j, 'p, 'd) package \<Rightarrow> env \<Rightarrow> Backend \<Rightarrow> EUI64 \<Rightarrow> Version \<Rightarrow> Backend" where
  "handleVersion L env b gatewayID pl =
     snd (sendToGateway L env b gatewayID (marshal_routerConfig L))"

definition handleTimeSync ::
  "('u, 'j, 'p, 'd) package \<Rightarrow> env \<Rightarrow> Backend \<Rightarrow> EUI64 \<Rightarrow> TimeSyncRequest \<Rightarrow> Backend" where
  "handleTimeSync L env b gatewayID v =
     (let resp = \<lparr>ts_MessageType = TimeSyncMessage, ts_TxTime = TxTime v,
                   ts_GPSTime = gpsTime env\<rparr>
      in snd (sendToGateway L env b gatewayID (marshal_TimeSyncResponse L resp)))"

text \<open>The three uplink handlers differ in the converter only; \<open>toProto\<close> is the result
  of the converter of the handler at hand.\<close>

definition handleUplink :: "env \<Rightarrow> Backend \<Rightarrow> error + UplinkFrame \<Rightarrow> Backend" where
  "handleUplink env b toProto =
     (case toProto of
        Inl e \<Rightarrow> b
      | Inr uplinkFrame \<Rightarrow>
          (case newUUID env of
             Inl e \<Rightarrow> b
           | Inr uplinkID \<Rightarrow>
               if uplinkFrameFunc b
               then emit b (EvUplinkFrame (uplinkFrame\<lparr>up_UplinkId := uplinkID\<rparr>)) else b))"

definition handleUplinkDataFrame ::
  "('u, 'j, 'p, 'd) package \<Rightarrow> env \<Rightarrow> Backend \<Rightarrow> EUI64 \<Rightarrow> 'u \<Rightarrow> Backend" where
  "handleUplinkDataFrame L env b gatewayID v =
     handleUplink env b (UplinkDataFrameToProto L gatewayID v)"

definition handleJoinRequest ::
  "('u, 'j, 'p, 'd) package \<Rightarrow> env \<Rightarrow> Backend \<Rightarrow> EUI64 \<Rightarrow> 'j \<Rightarrow> Backend" where
  "handleJoinRequest L env b gatewayID v =
     handleUplink env b (JoinRequestToProto L gatewayID v)"

definition handleProprietaryDataFrame ::
  "('u, 'j, 'p, 'd) package \<Rightarrow> env \<Rightarrow> Backend \<Rightarrow> EUI64 \<Rightarrow> 'p \<Rightarrow> Backend" where
  "handleProprietaryDataFrame L env b gatewayID v =
     handleUplink env b (UplinkProprietaryFrameToProto L gatewayID v)"

definition handleDownlinkTransmittedMessage ::
  "('u, 'j, 'p, 'd) package \<Rightarrow> env \<Rightarrow> Backend \<Rightarrow> EUI64 \<Rightarrow> DownlinkTransmitted \<Rightarrow> Backend" where
  "handleDownlinkTransmittedMessage L env b gatewayID v =
     (case DownlinkTransmittedToProto L gatewayID v of
        Inl e \<Rightarrow> b
      | Inr txack0 \<Rightarrow>
          (let txack = (case cache_Get (clock env) (diidCache b) (Sprintf_d (DIID v)) of
                          Some d \<Rightarrow> txack0\<lparr>ack_DownlinkId := d\<rparr>
                        | None \<Rightarrow> txack0)
           in if downlinkTxAckFunc b then emit b (EvDownlinkTXAck txack) else b))"

text \<open>The body of the read loop of \<^verbatim>\<open>handleGateway\<close> for one frame that was read.\<close>

definition handleMessage ::
  "('u, 'j, 'p, 'd) package \<Rightarrow> env \<Rightarrow> Backend \<Rightarrow> EUI64 \<Rightarrow> nat \<Rightarrow> bytes \<Rightarrow> Backend" where
  "handleMessage L env b gatewayID mt msg =
     (if mt = BinaryMessage then handleRawPacketForwarderEvent env b gatewayID msg
      else
        (case GetMessageType L msg of
           Inl e \<Rightarrow> b
         | Inr msgType \<Rightarrow>
             if msgType = VersionMessage then
               (case unmarshal_Version L msg of
                  Inl e \<Rightarrow> b
                | Inr pl \<Rightarrow> handleVersion L env b gatewayID pl)
             else if msgType = UplinkDataFrameMessage then
               (let b1 = incrementRxStats env b gatewayID
                in case unmarshal_UplinkDataFrame L msg of
                     Inl e \<Rightarrow> b1
                   | Inr pl \<Rightarrow> handleUplinkDataFrame L env b1 gatewayID pl)
             else if msgType = JoinRequestMessage then
               (let b1 = incrementRxStats env b gatewayID
                in case unmarshal_JoinRequest L msg of
                     Inl e \<Rightarrow> b1
                   | Inr pl \<Rightarrow> handleJoinRequest L env b1 gatewayID pl)
             else if msgType = ProprietaryDataFrameMessage then
               (let b1 = incrementRxStats env b gatewayID
                in case unmarshal_UplinkProprietaryFrame L msg of
                     Inl e \<Rightarrow> b1
                   | Inr pl \<Rightarrow> handleProprietaryDataFrame L env b1 gatewayID pl)
             else if msgType = DownlinkTransmittedMessage then
               (let b1 = incrementTxOkStats env b gatewayID
                in case unmarshal_DownlinkTransmitted L msg of
                     Inl e \<Rightarrow> b1
                   | Inr pl \<Rightarrow> handleDownlinkTransmittedMessage L env b1 gatewayID pl)
             else if msgType = TimeSyncMessage then
               (case unmarshal_TimeSyncRequest L msg of
                  Inl e \<Rightarrow> b
                | Inr pl \<Rightarrow> handleTimeSync L env b gatewayID pl)
             else handleRawPacketForwarderEvent env b gatewayID msg))"

text \<open>The read loop over the frames that arrive before the read fails.\<close>

fun readLoop ::
  "('u, 'j, 'p, 'd) package \<Rightarrow> Backend \<Rightarrow> EUI64 \<Rightarrow> (env \<times> nat \<times> bytes) list \<Rightarrow> Backend" where
  "readLoop L b gatewayID [] = b"
| "readLoop L b gatewayID ((env, mt, msg) # rest) =
     readLoop L (handleMessage L env b gatewayID mt msg) gatewayID rest"

subsection \<open>Stats loop\<close>

text \<open>One tick of \<^verbatim>\<open>statsLoop\<close>, and the loop over the ticks before \<^verbatim>\<open>done\<close>.\<close>

definition statsTick :: "env \<Rightarrow> Backend \<Rightarrow> EUI64 \<Rightarrow> Backend" where
  "statsTick env b gatewayID =
     (case newUUID env of
        Inl e \<Rightarrow> b
      | Inr sid \<Rightarrow>
          (let gwIDStr = EUI64_String gatewayID;
               c = statsCache b;
               rx = (case cache_Get (clock env) c (gwIDStr @ '':rx'') of
                       Some v \<Rightarrow> v | None \<Rightarrow> 0);
               rxOK = (case cache_Get (clock env) c (gwIDStr @ '':rxOK'') of
                         Some v \<Rightarrow> v | None \<Rightarrow> 0);
               tx = (case cache_Get (clock env) c (gwIDStr @ '':tx'') of
                       Some v \<Rightarrow> v | None \<Rightarrow> 0);
               txOK = (case cache_Get (clock env) c (gwIDStr @ '':txOK'') of
                         Some v \<Rightarrow> v | None \<Rightarrow> 0);
               c' = cache_Delete (cache_Delete (cache_Delete (cache_Delete c
                      (gwIDStr @ '':rx'')) (gwIDStr @ '':rxOK'')) (gwIDStr @ '':tx''))
                      (gwIDStr @ '':txOK'');
               b' = b\<lparr>statsCache := c'\<rparr>
           in if gatewayStatsFunc b
              then emit b' (EvGatewayStats
                     \<lparr>st_GatewayId = gatewayID, st_Time = clock env, st_StatsId = sid,
                      RxPacketsReceived = rx, RxPacketsReceivedOk = rxOK,
                      TxPacketsReceived = tx, TxPacketsEmitted = txOK\<rparr>)
              else b'))"

fun statsLoop :: "Backend \<Rightarrow> EUI64 \<Rightarrow> env list \<Rightarrow> Backend" where
  "statsLoop b gatewayID [] = b"
| "statsLoop b gatewayID (env # ticks) = statsLoop (statsTick env b gatewayID) gatewayID ticks"

subsection \<open>Connections\<close>

text \<open>Of a request: the URL path, the host, and the Subject Common Name of the first
  peer certificate when the connection is over TLS and the peer presented one.\<close>

record request =
  url_Path :: string
  Host :: string
  peerCommonName :: "string option"

text \<open>The check both handlers make on a presented certificate: the Common Name fails
  to parse as an EUI-64, or differs from the EUI asked for.\<close>

definition commonNameFails :: "string \<Rightarrow> EUI64 \<Rightarrow> bool" where
  "commonNameFails cn eui =
     (case EUI64_UnmarshalText cn of Inl e \<Rightarrow> True | Inr cnEUI \<Rightarrow> cnEUI \<noteq> eui)"

definition routerInfoResponse :: "Backend \<Rightarrow> request \<Rightarrow> RouterInfoRequest \<Rightarrow> RouterInfoResponse" where
  "routerInfoResponse b r req =
     (let resp = \<lparr>Router = req_Router req, Muxs = req_Router req,
                   URI = scheme b @ ''://'' @ Host r @ ''/gateway/''
                           @ EUI64_String (req_Router req),
                   Error = []\<rparr>
      in case peerCommonName r of
           None \<Rightarrow> resp
         | Some cn \<Rightarrow>
             if commonNameFails cn (req_Router req)
             then resp\<lparr>URI := [],
                       Error := ''certificate CommonName '' @ cn @ '' does not match router ''
                                  @ EUI64_String (req_Router req)\<rparr>
             else resp)"

text \<open>\<open>read\<close> is the result of \<^verbatim>\<open>c.ReadJSON(&req)\<close>.\<close>

definition handleRouterInfo ::
  "('u, 'j, 'p, 'd) package \<Rightarrow> Backend \<Rightarrow> request \<Rightarrow> conn \<Rightarrow> error + RouterInfoRequest
     \<Rightarrow> Backend" where
  "handleRouterInfo L b r c read =
     (case read of
        Inl e \<Rightarrow> b
      | Inr req \<Rightarrow>
          (case marshal_RouterInfoResponse L (routerInfoResponse b r req) of
             Inl e \<Rightarrow> b
           | Inr bb \<Rightarrow> b\<lparr>written := written b @ [(c, TextMessage, bb)]\<rparr>))"

text \<open>
  \<^verbatim>\<open>handleGateway\<close> up to its read loop: it reads the gateway id from the last
  segment of the URL path, then returns early, leaving the backend as it is, or
  registers the connection and goes on with the gateway id. The deferred function
  runs when the handler returns from the loop. Outside single mode the handler also
  starts the stats loop of the gateway; its ticks are steps of their own below.
\<close>

definition urlGatewayID :: "request \<Rightarrow> error + EUI64" where
  "urlGatewayID r =
     (let urlParts = strings_Split (url_Path r) CHR ''/''
      in if length urlParts < 2 then Inl ''unable to read gateway id from url''
         else
           (case EUI64_UnmarshalText (last urlParts) of
              Inl e \<Rightarrow> Inl (wrapped e ''parse gateway id error'')
            | Inr gatewayID \<Rightarrow> Inr gatewayID))"

definition handleGateway_setup :: "Backend \<Rightarrow> request \<Rightarrow> conn \<Rightarrow> error + (EUI64 \<times> Backend)" where
  "handleGateway_setup b r c =
     (case urlGatewayID r of
        Inl e \<Rightarrow> Inl e
      | Inr gatewayID \<Rightarrow>
          if (case peerCommonName r of
                None \<Rightarrow> False
              | Some cn \<Rightarrow> commonNameFails cn gatewayID)
          then Inl ''CommonName verification failed''
          else if (case gateways_get (gateways b) gatewayID of
                     Inl e \<Rightarrow> False
                   | Inr existingGw \<Rightarrow> conn existingGw \<noteq> None)
          then Inl ''connection with same gateway id already exists''
          else if singleMode b \<and> gatewayID \<noteq> singleGwID b
          then Inl ''operates in single mode, the received id will be ignored''
          else
            Inr (gatewayID,
                 (case gateways_set (gateways b) gatewayID \<lparr>conn = Some c\<rparr> of
                    Inl e \<Rightarrow> b
                  | Inr g \<Rightarrow> b\<lparr>gateways := g\<rparr>)))"

definition handleGateway_deferred :: "Backend \<Rightarrow> EUI64 \<Rightarrow> Backend" where
  "handleGateway_deferred b gatewayID =
     (if singleMode b then b\<lparr>gateways := gateways_reset (gateways b) gatewayID\<rparr>
      else b\<lparr>gateways := gateways_remove (gateways b) gatewayID\<rparr>)"

definition handleGateway ::
  "('u, 'j, 'p, 'd) package \<Rightarrow> Backend \<Rightarrow> request \<Rightarrow> conn \<Rightarrow> (env \<times> nat \<times> bytes) list
     \<Rightarrow> Backend" where
  "handleGateway L b r c frames =
     (case handleGateway_setup b r c of
        Inl reason \<Rightarrow> b
      | Inr (gatewayID, b1) \<Rightarrow> handleGateway_deferred (readLoop L b1 gatewayID frames) gatewayID)"

subsection \<open>Construction and start of the backend\<close>

text \<open>The options of the configuration that \<^verbatim>\<open>NewBackend\<close> interprets itself, and the
  results of the steps it delegates (band tables, router config, listener, reading
  the CA certificate).\<close>

record Config =
  conf_CACert :: string
  conf_TLSCert :: string
  conf_TLSKey :: string
  conf_StatsInterval :: int
  conf_NetIDs :: "string list"
  conf_JoinEUIs :: "(string \<times> string) list"
  conf_Single_Enabled :: bool
  conf_Single_GwID :: string

record startup =
  band_GetConfig :: "error option"
  structs_GetRouterConfig :: "error option"
  net_Listen :: "error option"
  ioutil_ReadFile :: "error option"

fun parseNetIDs :: "string list \<Rightarrow> error + bytes list" where
  "parseNetIDs [] = Inr []"
| "parseNetIDs (n # ns) =
     (case NetID_UnmarshalText n of
        Inl e \<Rightarrow> Inl (wrapped e ''unmarshal netid error'')
      | Inr netID \<Rightarrow>
          (case parseNetIDs ns of Inl e \<Rightarrow> Inl e | Inr ids \<Rightarrow> Inr (netID # ids)))"

fun parseJoinEUIs :: "(string \<times> string) list \<Rightarrow> error + (EUI64 \<times> EUI64) list" where
  "parseJoinEUIs [] = Inr []"
| "parseJoinEUIs ((s0, s1) # sets) =
     (case EUI64_UnmarshalText s0 of
        Inl e \<Rightarrow> Inl (wrapped e ''unmarshal joineui error'')
      | Inr e0 \<Rightarrow>
          (case EUI64_UnmarshalText s1 of
             Inl e \<Rightarrow> Inl (wrapped e ''unmarshal joineui error'')
           | Inr e1 \<Rightarrow>
               (case parseJoinEUIs sets of
                  Inl e \<Rightarrow> Inl e
                | Inr rest \<Rightarrow> Inr ((e0, e1) # rest))))"

definition NewBackend :: "startup \<Rightarrow> Config \<Rightarrow> error + Backend" where
  "NewBackend su conf =
     (let b = \<lparr>caCert = conf_CACert conf, tlsCert = conf_TLSCert conf,
                tlsKey = conf_TLSKey conf, scheme = ''ws'', gateways = Map.empty,
                downlinkTxAckFunc = False, uplinkFrameFunc = False,
                gatewayStatsFunc = False, rawPacketForwarderEventFunc = False,
                statsCache = cache_New (conf_StatsInterval conf * 2),
                diidCache = cache_New time_Minute,
                singleMode = conf_Single_Enabled conf, singleGwID = replicate 8 0,
                emitted = [], written = []\<rparr>
      in case parseNetIDs (conf_NetIDs conf) of
           Inl e \<Rightarrow> Inl e
         | Inr netIDs \<Rightarrow>
         (case parseJoinEUIs (conf_JoinEUIs conf) of
            Inl e \<Rightarrow> Inl e
          | Inr joinEUIs \<Rightarrow>
          (case band_GetConfig su of
             Some e \<Rightarrow> Inl (wrapped e ''get band config error'')
           | None \<Rightarrow>
           (case structs_GetRouterConfig su of
              Some e \<Rightarrow> Inl (wrapped e ''get router config error'')
            | None \<Rightarrow>
            (case net_Listen su of
               Some e \<Rightarrow> Inl (wrapped e ''create listener error'')
             | None \<Rightarrow>
             (case (if caCert b \<noteq> [] then ioutil_ReadFile su else None) of
                Some e \<Rightarrow> Inl (wrapped e ''read ca cert error'')
              | None \<Rightarrow>
                  if singleMode b then
                    (case hex_DecodeString (conf_Single_GwID conf) of
                       Inl e \<Rightarrow>
                         Inl (wrapped e
                           ''basic_station: Single mode is on! gw_id must be 8byte hex string'')
                     | Inr gwID \<Rightarrow>
                         if length gwID = 0 then
                           Inl (''basic_station: Single mode is on! Specify gw_id parameter''
                                @ '' with gateway id (8byte hex representation)'')
                         else Inr (b\<lparr>singleGwID := copy8 gwID\<rparr>))
                  else Inr b))))))"

text \<open>The setters install a callback.\<close>

definition SetDownlinkTxAckFunc :: "Backend \<Rightarrow> Backend" where
  "SetDownlinkTxAckFunc b = b\<lparr>downlinkTxAckFunc := True\<rparr>"

definition SetGatewayStatsFunc :: "Backend \<Rightarrow> Backend" where
  "SetGatewayStatsFunc b = b\<lparr>gatewayStatsFunc := True\<rparr>"

definition SetUplinkFrameFunc :: "Backend \<Rightarrow> Backend" where
  "SetUplinkFrameFunc b = b\<lparr>uplinkFrameFunc := True\<rparr>"

definition SetRawPacketForwarderEventFunc :: "Backend \<Rightarrow> Backend" where
  "SetRawPacketForwarderEventFunc b = b\<lparr>rawPacketForwarderEventFunc := True\<rparr>"

text \<open>\<^verbatim>\<open>Start\<close>: the serving goroutine switches the scheme when any TLS input is set;
  single mode registers an entry without connection (its stats loop shows as ticks).\<close>

definition Start :: "Backend \<Rightarrow> Backend" where
  "Start b =
     (let b1 = (if tlsCert b = [] \<and> tlsKey b = [] \<and> caCert b = [] then b
                else b\<lparr>scheme := ''wss''\<rparr>)
      in if singleMode b1 then
           (case gateways_set (gateways b1) (singleGwID b1) \<lparr>conn = None\<rparr> of
              Inl e \<Rightarrow> b1
            | Inr g \<Rightarrow> b1\<lparr>gateways := g\<rparr>)
         else b1)"

subsection \<open>The running backend\<close>

text \<open>
  The operations of the backend, each taken as a whole: a callback is installed, the
  backend is started, a connection is accepted (\<^verbatim>\<open>handleGateway\<close> up to its loop), a
  handler returns (its deferred function), a frame is read and handled, a stats loop
  ticks, the integration sends a downlink or a raw command, a router-info request is
  served. A frame and a tick make several calls of the stats cache, between which the
  other goroutine of the connection can run; the next subsection takes them one call
  at a time.
\<close>

datatype op =
  InstallDownlinkTxAckFunc
| InstallGatewayStatsFunc
| InstallUplinkFrameFunc
| InstallRawPacketForwarderEventFunc
| StartBackend
| Connect request conn
| Disconnect EUI64
| Message env EUI64 nat bytes
| Tick env EUI64
| Downlink env DownlinkFrame
| RawCommand env RawPacketForwarderCommand
| RouterInfo request conn "error + RouterInfoRequest"

fun step :: "('u, 'j, 'p, 'd) package \<Rightarrow> Backend \<Rightarrow> op \<Rightarrow> Backend" where
  "step L b InstallDownlinkTxAckFunc = SetDownlinkTxAckFunc b"
| "step L b InstallGatewayStatsFunc = SetGatewayStatsFunc b"
| "step L b InstallUplinkFrameFunc = SetUplinkFrameFunc b"
| "step L b InstallRawPacketForwarderEventFunc = SetRawPacketForwarderEventFunc b"
| "step L b StartBackend = Start b"
| "step L b (Connect r c) =
     (case handleGateway_setup b r c of Inl reason \<Rightarrow> b | Inr (gatewayID, b1) \<Rightarrow> b1)"
| "step L b (Disconnect gatewayID) = handleGateway_deferred b gatewayID"
| "step L b (Message env gatewayID mt msg) = handleMessage L env b gatewayID mt msg"
| "step L b (Tick env gatewayID) = statsTick env b gatewayID"
| "step L b (Downlink env df) = snd (SendDownlinkFrame L env b df)"
| "step L b (RawCommand env pl) = snd (RawPacketForwarderCommand L env b pl)"
| "step L b (RouterInfo r c read) = handleRouterInfo L b r c read"

fun run :: "('u, 'j, 'p, 'd) package \<Rightarrow> Backend \<Rightarrow> op list \<Rightarrow> Backend" where
  "run L b [] = b"
| "run L b (x # xs) = run L (step L b x) xs"

subsection \<open>The goroutines of a connection, one cache call at a time\<close>

text \<open>
  The read loop of a connection and its stats loop are goroutines of their own. A
  single call of the stats cache is atomic (the cache takes its own lock); no lock
  covers two calls. Here each of the two goroutines of the connection of one gateway
  advances by one step at a time, and a step holds at most one call of the stats
  cache. The position of a goroutine says which step is its next one; the variables
  are the locals of the goroutine that live from one step to the next.
\<close>

datatype statsPos =
  AtTicker
| AtGetRx
| AtGetRxOK
| AtGetTx
| AtGetTxOK
| AtDeleteRx
| AtDeleteRxOK
| AtDeleteTx
| AtDeleteTxOK
| AtCallback

record statsVars =
  statsAt :: statsPos
  var_id :: bytes
  var_rx :: uint32
  var_rxOK :: uint32
  var_tx :: uint32
  var_txOK :: uint32

datatype readPos =
  AtReadMessage
| AtSetRx
| AtIncrementRxOK
| AtSetRxOK
| AtSetTxOK
| AtHandle

record readVars =
  readAt :: readPos
  var_msgType :: string
  var_msg :: bytes

record connection =
  backend :: Backend
  statsLoopVars :: statsVars
  readLoopVars :: readVars

text \<open>
  The next step of \<^verbatim>\<open>statsLoop\<close>: the ticker fires and the tick gets its UUID (on an
  error the loop waits for the next tick), then the four \<^verbatim>\<open>Get\<close>, the four \<^verbatim>\<open>Delete\<close>,
  and the call of the callback.
\<close>

definition statsLoop_step :: "env \<Rightarrow> EUI64 \<Rightarrow> connection \<Rightarrow> connection" where
  "statsLoop_step env gatewayID c =
     (let b = backend c;
          v = statsLoopVars c;
          gwIDStr = EUI64_String gatewayID
      in case statsAt v of
           AtTicker \<Rightarrow>
             (case newUUID env of
                Inl e \<Rightarrow> c
              | Inr sid \<Rightarrow>
                  c\<lparr>statsLoopVars :=
                      \<lparr>statsAt = AtGetRx, var_id = sid, var_rx = 0, var_rxOK = 0,
                       var_tx = 0, var_txOK = 0\<rparr>\<rparr>)
         | AtGetRx \<Rightarrow>
             c\<lparr>statsLoopVars := v\<lparr>statsAt := AtGetRxOK,
                 var_rx := (case cache_Get (clock env) (statsCache b) (gwIDStr @ '':rx'') of
                              Some x \<Rightarrow> x | None \<Rightarrow> var_rx v)\<rparr>\<rparr>
         | AtGetRxOK \<Rightarrow>
             c\<lparr>statsLoopVars := v\<lparr>statsAt := AtGetTx,
                 var_rxOK := (case cache_Get (clock env) (statsCache b) (gwIDStr @ '':rxOK'') of
                                Some x \<Rightarrow> x | None \<Rightarrow> var_rxOK v)\<rparr>\<rparr>
         | AtGetTx \<Rightarrow>
             c\<lparr>statsLoopVars := v\<lparr>statsAt := AtGetTxOK,
                 var_tx := (case cache_Get (clock env) (statsCache b) (gwIDStr @ '':tx'') of
                              Some x \<Rightarrow> x | None \<Rightarrow> var_tx v)\<rparr>\<rparr>
         | AtGetTxOK \<Rightarrow>
             c\<lparr>statsLoopVars := v\<lparr>statsAt := AtDeleteRx,
                 var_txOK := (case cache_Get (clock env) (statsCache b) (gwIDStr @ '':txOK'') of
                                Some x \<Rightarrow> x | None \<Rightarrow> var_txOK v)\<rparr>\<rparr>
         | AtDeleteRx \<Rightarrow>
             c\<lparr>backend := b\<lparr>statsCache := cache_Delete (statsCache b) (gwIDStr @ '':rx'')\<rparr>,
               statsLoopVars := v\<lparr>statsAt := AtDeleteRxOK\<rparr>\<rparr>
         | AtDeleteRxOK \<Rightarrow>
             c\<lparr>backend := b\<lparr>statsCache := cache_Delete (statsCache b) (gwIDStr @ '':rxOK'')\<rparr>,
               statsLoopVars := v\<lparr>statsAt := AtDeleteTx\<rparr>\<rparr>
         | AtDeleteTx \<Rightarrow>
             c\<lparr>backend := b\<lparr>statsCache := cache_Delete (statsCache b) (gwIDStr @ '':tx'')\<rparr>,
               statsLoopVars := v\<lparr>statsAt := AtDeleteTxOK\<rparr>\<rparr>
         | AtDeleteTxOK \<Rightarrow>
             c\<lparr>backend := b\<lparr>statsCache := cache_Delete (statsCache b) (gwIDStr @ '':txOK'')\<rparr>,
               statsLoopVars := v\<lparr>statsAt := AtCallback\<rparr>\<rparr>
         | AtCallback \<Rightarrow>
             c\<lparr>backend :=
                 (if gatewayStatsFunc b
                  then emit b (EvGatewayStats
                         \<lparr>st_GatewayId = gatewayID, st_Time = clock env, st_StatsId = var_id v,
                          RxPacketsReceived = var_rx v, RxPacketsReceivedOk = var_rxOK v,
                          TxPacketsReceived = var_tx v, TxPacketsEmitted = var_txOK v\<rparr>)
                  else b),
               statsLoopVars := v\<lparr>statsAt := AtTicker\<rparr>\<rparr>)"

text \<open>
  What the dispatcher does with a frame of message type \<^verbatim>\<open>updf\<close>, \<^verbatim>\<open>jreq\<close>, \<^verbatim>\<open>propdf\<close>
  or \<^verbatim>\<open>dntxed\<close> once its counters are bumped: the typed decoding and the handler.
\<close>

definition handleCounted ::
  "('u, 'j, 'p, 'd) package \<Rightarrow> env \<Rightarrow> Backend \<Rightarrow> EUI64 \<Rightarrow> string \<Rightarrow> bytes \<Rightarrow> Backend" where
  "handleCounted L env b gatewayID msgType msg =
     (if msgType = UplinkDataFrameMessage then
        (case unmarshal_UplinkDataFrame L msg of
           Inl e \<Rightarrow> b
         | Inr pl \<Rightarrow> handleUplinkDataFrame L env b gatewayID pl)
      else if msgType = JoinRequestMessage then
        (case unmarshal_JoinRequest L msg of
           Inl e \<Rightarrow> b
         | Inr pl \<Rightarrow> handleJoinRequest L env b gatewayID pl)
      else if msgType = ProprietaryDataFrameMessage then
        (case unmarshal_UplinkProprietaryFrame L msg of
           Inl e \<Rightarrow> b
         | Inr pl \<Rightarrow> handleProprietaryDataFrame L env b gatewayID pl)
      else if msgType = DownlinkTransmittedMessage then
        (case unmarshal_DownlinkTransmitted L msg of
           Inl e \<Rightarrow> b
         | Inr pl \<Rightarrow> handleDownlinkTransmittedMessage L env b gatewayID pl)
      else b)"

text \<open>
  The read loop reads a frame and runs the dispatcher up to and including its first call
  of the stats cache: \<^verbatim>\<open>IncrementUint32\<close> on \<^verbatim>\<open>id+":rx"\<close> for the uplink types and on
  \<^verbatim>\<open>id+"txOK"\<close> for \<^verbatim>\<open>dntxed\<close>. A frame of another kind makes no call of the stats cache
  and is handled in this one step.
\<close>

definition readLoop_read ::
  "('u, 'j, 'p, 'd) package \<Rightarrow> env \<Rightarrow> EUI64 \<Rightarrow> nat \<Rightarrow> bytes \<Rightarrow> connection \<Rightarrow> connection" where
  "readLoop_read L env gatewayID mt msg c =
     (let b = backend c;
          idStr = EUI64_String gatewayID
      in if mt = BinaryMessage
         then c\<lparr>backend := handleRawPacketForwarderEvent env b gatewayID msg\<rparr>
         else
           (case GetMessageType L msg of
              Inl e \<Rightarrow> c
            | Inr msgType \<Rightarrow>
                if msgType = UplinkDataFrameMessage \<or> msgType = JoinRequestMessage
                   \<or> msgType = ProprietaryDataFrameMessage then
                  (case IncrementUint32 (clock env) (statsCache b) (idStr @ '':rx'') 1 of
                     Inl e \<Rightarrow>
                       c\<lparr>readLoopVars :=
                           \<lparr>readAt = AtSetRx, var_msgType = msgType, var_msg = msg\<rparr>\<rparr>
                   | Inr (x, sc) \<Rightarrow>
                       c\<lparr>backend := b\<lparr>statsCache := sc\<rparr>,
                         readLoopVars :=
                           \<lparr>readAt = AtIncrementRxOK, var_msgType = msgType, var_msg = msg\<rparr>\<rparr>)
                else if msgType = DownlinkTransmittedMessage then
                  (case IncrementUint32 (clock env) (statsCache b) (idStr @ ''txOK'') 1 of
                     Inl e \<Rightarrow>
                       c\<lparr>readLoopVars :=
                           \<lparr>readAt = AtSetTxOK, var_msgType = msgType, var_msg = msg\<rparr>\<rparr>
                   | Inr (x, sc) \<Rightarrow>
                       c\<lparr>backend := b\<lparr>statsCache := sc\<rparr>,
                         readLoopVars :=
                           \<lparr>readAt = AtHandle, var_msgType = msgType, var_msg = msg\<rparr>\<rparr>)
                else c\<lparr>backend := handleMessage L env b gatewayID mt msg\<rparr>))"

text \<open>
  The next step of the frame in progress: the \<^verbatim>\<open>SetDefault\<close> after a failed increment,
  the increment of \<^verbatim>\<open>id+":rxOK"\<close>, and at last the decoding and the handler.
\<close>

definition readLoop_continue ::
  "('u, 'j, 'p, 'd) package \<Rightarrow> env \<Rightarrow> EUI64 \<Rightarrow> connection \<Rightarrow> connection" where
  "readLoop_continue L env gatewayID c =
     (let b = backend c;
          v = readLoopVars c;
          idStr = EUI64_String gatewayID
      in case readAt v of
           AtReadMessage \<Rightarrow> c
         | AtSetRx \<Rightarrow>
             c\<lparr>backend := b\<lparr>statsCache :=
                   SetDefault (clock env) (statsCache b) (idStr @ '':rx'') 1\<rparr>,
               readLoopVars := v\<lparr>readAt := AtIncrementRxOK\<rparr>\<rparr>
         | AtIncrementRxOK \<Rightarrow>
             (case IncrementUint32 (clock env) (statsCache b) (idStr @ '':rxOK'') 1 of
                Inl e \<Rightarrow> c\<lparr>readLoopVars := v\<lparr>readAt := AtSetRxOK\<rparr>\<rparr>
              | Inr (x, sc) \<Rightarrow>
                  c\<lparr>backend := b\<lparr>statsCache := sc\<rparr>,
                    readLoopVars := v\<lparr>readAt := AtHandle\<rparr>\<rparr>)
         | AtSetRxOK \<Rightarrow>
             c\<lparr>backend := b\<lparr>statsCache :=
                   SetDefault (clock env) (statsCache b) (idStr @ '':rxOK'') 1\<rparr>,
               readLoopVars := v\<lparr>readAt := AtHandle\<rparr>\<rparr>
         | AtSetTxOK \<Rightarrow>
             c\<lparr>backend := b\<lparr>statsCache :=
                   SetDefault (clock env) (statsCache b) (idStr @ '':txOK'') 1\<rparr>,
               readLoopVars := v\<lparr>readAt := AtHandle\<rparr>\<rparr>
         | AtHandle \<Rightarrow>
             c\<lparr>backend := handleCounted L env b gatewayID (var_msgType v) (var_msg v),
               readLoopVars := v\<lparr>readAt := AtReadMessage\<rparr>\<rparr>)"

text \<open>
  A schedule of the connection is the list of the steps taken, each with what it reads
  from its environment: a step of the stats loop, the read loop reading the next frame,
  or the read loop going on with the frame in progress. The connection starts with the
  stats loop waiting for its ticker and the read loop waiting for a frame.
\<close>

datatype move =
  StatsStep env
| FrameRead env nat bytes
| ReadStep env

fun advance :: "('u, 'j, 'p, 'd) package \<Rightarrow> EUI64 \<Rightarrow> connection \<Rightarrow> move \<Rightarrow> connection" where
  "advance L g c (StatsStep env) = statsLoop_step env g c"
| "advance L g c (FrameRead env mt msg) =
     (if readAt (readLoopVars c) = AtReadMessage then readLoop_read L env g mt msg c else c)"
| "advance L g c (ReadStep env) = readLoop_continue L env g c"

fun advances ::
  "('u, 'j, 'p, 'd) package \<Rightarrow> EUI64 \<Rightarrow> connection \<Rightarrow> move list \<Rightarrow> connection" where
  "advances L g c [] = c"
| "advances L g c (x # xs) = advances L g (advance L g c x) xs"

definition started :: "Backend \<Rightarrow> connection" where
  "started b =
     \<lparr>backend = b,
      statsLoopVars = \<lparr>statsAt = AtTicker, var_id = [], var_rx = 0, var_rxOK = 0,
                       var_tx = 0, var_txOK = 0\<rparr>,
      readLoopVars = \<lparr>readAt = AtReadMessage, var_msgType = [], var_msg = []\<rparr>\<rparr>"

subsection \<open>A concrete instance\<close>

text \<open>
  A small instance of the parameters, for evaluating the backend on concrete inputs:
  the first byte of a text frame selects the message type, a frame of one byte fails
  its typed decoding, and the second byte of a \<^verbatim>\<open>dntxed\<close> frame is its \<^verbatim>\<open>diid\<close>.
\<close>

definition tinyMessageType :: "bytes \<Rightarrow> error + string" where
  "tinyMessageType msg =
     (case msg of
        [] \<Rightarrow> Inl ''unexpected end of JSON input''
      | t # rest \<Rightarrow>
          Inr (if t = 1 then ''version'' else if t = 2 then ''updf''
               else if t = 3 then ''jreq'' else if t = 4 then ''propdf''
               else if t = 5 then ''dntxed'' else if t = 6 then ''timesync''
               else ''other''))"

definition tinyDecode :: "'a \<Rightarrow> bytes \<Rightarrow> error + 'a" where
  "tinyDecode v msg = (if length msg < 2 then Inl ''cannot unmarshal'' else Inr v)"

definition tinyUplink :: "EUI64 \<Rightarrow> unit \<Rightarrow> error + UplinkFrame" where
  "tinyUplink eui v = Inr \<lparr>up_PhyPayload = [], up_GatewayId = eui, up_UplinkId = []\<rparr>"

definition tinyPackage :: "(unit, unit, unit, bytes) package" where
  "tinyPackage =
     \<lparr>err = None,
      GetMessageType = tinyMessageType,
      unmarshal_Version =
        tinyDecode \<lparr>Station = [], Firmware = [], Package = [], Model = [], Protocol = 2\<rparr>,
      unmarshal_UplinkDataFrame = tinyDecode (),
      unmarshal_JoinRequest = tinyDecode (),
      unmarshal_UplinkProprietaryFrame = tinyDecode (),
      unmarshal_DownlinkTransmitted =
        (\<lambda>msg. if length msg < 2 then Inl ''cannot unmarshal''
               else Inr \<lparr>DIID = ucast (msg ! 1)\<rparr>),
      unmarshal_TimeSyncRequest = tinyDecode \<lparr>TxTime = 0\<rparr>,
      UplinkDataFrameToProto = tinyUplink,
      JoinRequestToProto = tinyUplink,
      UplinkProprietaryFrameToProto = tinyUplink,
      DownlinkTransmittedToProto =
        (\<lambda>eui v. Inr \<lparr>ack_GatewayId = eui, ack_Token = DIID v, ack_DownlinkId = []\<rparr>),
      DownlinkFrameFromProto = (\<lambda>df. Inr (df_PhyPayload df)),
      marshal_DownlinkFrame = (\<lambda>pl. Inr pl),
      marshal_routerConfig = Inr [114, 99],
      marshal_TimeSyncResponse = (\<lambda>resp. Inr [116, 115]),
      marshal_RouterInfoResponse = (\<lambda>resp. Inr (map (\<lambda>ch. of_nat (of_char ch)) (URI resp)))\<rparr>"

definition tinyStartup :: startup where
  "tinyStartup =
     \<lparr>band_GetConfig = None, structs_GetRouterConfig = None, net_Listen = None,
      ioutil_ReadFile = None\<rparr>"

definition tinyConfig :: Config where
  "tinyConfig =
     \<lparr>conf_CACert = [], conf_TLSCert = [], conf_TLSKey = [],
      conf_StatsInterval = 30000000000, conf_NetIDs = [], conf_JoinEUIs = [],
      conf_Single_Enabled = False, conf_Single_GwID = []\<rparr>"

text \<open>A backend with its four callbacks installed, as \<^verbatim>\<open>NewBackend\<close> leaves it for
  \<open>tinyConfig\<close>, and the same with the gateway 0102030405060708 connected on socket 5.\<close>

definition tinyBackend :: Backend where
  "tinyBackend =
     \<lparr>caCert = [], tlsCert = [], tlsKey = [], scheme = ''ws'', gateways = Map.empty,
      downlinkTxAckFunc = True, uplinkFrameFunc = True,
      gatewayStatsFunc = True, rawPacketForwarderEventFunc = True,
      statsCache = cache_New 60000000000,
      diidCache = cache_New time_Minute,
      singleMode = False, singleGwID = replicate 8 0,
      emitted = [], written = []\<rparr>"

definition tinyConnected :: Backend where
  "tinyConnected = tinyBackend\<lparr>gateways := [[1, 2, 3, 4, 5, 6, 7, 8] \<mapsto> \<lparr>conn = Some 5\<rparr>]\<rparr>"

definition tinyGateway :: EUI64 where
  "tinyGateway = [1, 2, 3, 4, 5, 6, 7, 8]"

definition tinyEnv :: "int \<Rightarrow> env" where
  "tinyEnv t =
     \<lparr>clock = t, newUUID = Inr (replicate 16 7), randRead = Inr (18, 52),
      writeResult = None, gpsTime = 0\<rparr>"

definition tinyDownlink :: "uint32 \<Rightarrow> DownlinkFrame" where
  "tinyDownlink tok =
     \<lparr>df_Token = tok, df_GatewayId = tinyGateway,
      df_DownlinkId = replicate 15 0 @ [42], df_PhyPayload = [1, 2, 3]\<rparr>"

subsection \<open>Notions used in the statements\<close>

text \<open>The typed decoding that the dispatcher applies to a frame of the given message
  type fails.\<close>

definition typedDecodeFails :: "('u, 'j, 'p, 'd) package \<Rightarrow> string \<Rightarrow> bytes \<Rightarrow> bool" where
  "typedDecodeFails L msgType msg =
     ((msgType = VersionMessage \<and> isl (unmarshal_Version L msg))
      \<or> (msgType = UplinkDataFrameMessage \<and> isl (unmarshal_UplinkDataFrame L msg))
      \<or> (msgType = JoinRequestMessage \<and> isl (unmarshal_JoinRequest L msg))
      \<or> (msgType = ProprietaryDataFrameMessage \<and> isl (unmarshal_UplinkProprietaryFrame L msg))
      \<or> (msgType = DownlinkTransmittedMessage \<and> isl (unmarshal_DownlinkTransmitted L msg))
      \<or> (msgType = TimeSyncMessage \<and> isl (unmarshal_TimeSyncRequest L msg)))"

definition uplinkMessageType :: "string \<Rightarrow> bool" where
  "uplinkMessageType msgType =
     (msgType = UplinkDataFrameMessage \<or> msgType = JoinRequestMessage
      \<or> msgType = ProprietaryDataFrameMessage)"

definition knownMessageType :: "string \<Rightarrow> bool" where
  "knownMessageType msgType =
     (msgType = VersionMessage \<or> uplinkMessageType msgType
      \<or> msgType = DownlinkTransmittedMessage \<or> msgType = TimeSyncMessage)"

text \<open>Any of the three TLS inputs is configured.\<close>

definition tlsConfigured :: "Config \<Rightarrow> bool" where
  "tlsConfigured conf =
     (\<not> (conf_TLSCert conf = [] \<and> conf_TLSKey conf = [] \<and> conf_CACert conf = []))"

text \<open>The operation is a downlink that is stored in the token cache under the given
  token (the one it carries, or the fresh one it gets).\<close>

definition reusesToken :: "op \<Rightarrow> uint32 \<Rightarrow> bool" where
  "reusesToken x tok =
     (case x of
        Downlink env df \<Rightarrow>
          (case assignToken env df of Inl e \<Rightarrow> False | Inr df' \<Rightarrow> df_Token df' = tok)
      | _ \<Rightarrow> False)"

text \<open>A frame that the dispatcher counts as an uplink: a text frame whose message type
  is \<^verbatim>\<open>updf\<close>, \<^verbatim>\<open>jreq\<close> or \<^verbatim>\<open>propdf\<close> (the counters are bumped before the frame
  is decoded).\<close>

definition isUplinkFrame :: "('u, 'j, 'p, 'd) package \<Rightarrow> nat \<Rightarrow> bytes \<Rightarrow> bool" where
  "isUplinkFrame L mt msg =
     (mt \<noteq> BinaryMessage
      \<and> (case GetMessageType L msg of Inl e \<Rightarrow> False | Inr t \<Rightarrow> uplinkMessageType t))"

text \<open>The gateway-stats events among the emitted ones, oldest first.\<close>

fun statsEvents :: "event list \<Rightarrow> GatewayStats list" where
  "statsEvents [] = []"
| "statsEvents (EvGatewayStats s # es) = s # statsEvents es"
| "statsEvents (e # es) = statsEvents es"

text \<open>The gateway-stats events emitted after backend \<open>b\<close>, up to its later state.\<close>

definition statsSince :: "Backend \<Rightarrow> Backend \<Rightarrow> GatewayStats list" where
  "statsSince b b' = drop (length (statsEvents (emitted b))) (statsEvents (emitted b'))"

text \<open>
  The notions for the schedules of a connection. A move is possible when the read loop
  is where the move takes it from (the stats loop always has a next step). The stats
  loop is busy with the counters from its first \<^verbatim>\<open>Get\<close> to its last \<^verbatim>\<open>Delete\<close>, the read
  loop from its increment of \<^verbatim>\<open>id+":rx"\<close> until \<^verbatim>\<open>id+":rxOK"\<close> is bumped too.
\<close>

fun clockOf :: "move \<Rightarrow> int" where
  "clockOf (StatsStep env) = clock env"
| "clockOf (FrameRead env mt msg) = clock env"
| "clockOf (ReadStep env) = clock env"

fun possible :: "connection \<Rightarrow> move \<Rightarrow> bool" where
  "possible c (StatsStep env) = True"
| "possible c (FrameRead env mt msg) = (readAt (readLoopVars c) = AtReadMessage)"
| "possible c (ReadStep env) = (readAt (readLoopVars c) \<noteq> AtReadMessage)"

definition statsBusy :: "connection \<Rightarrow> bool" where
  "statsBusy c =
     (statsAt (statsLoopVars c) \<noteq> AtTicker \<and> statsAt (statsLoopVars c) \<noteq> AtGetRx
      \<and> statsAt (statsLoopVars c) \<noteq> AtCallback)"

definition readBusy :: "connection \<Rightarrow> bool" where
  "readBusy c =
     (readAt (readLoopVars c) = AtSetRx \<or> readAt (readLoopVars c) = AtIncrementRxOK
      \<or> readAt (readLoopVars c) = AtSetRxOK)"

text \<open>The step is the last \<^verbatim>\<open>Delete\<close> of a tick.\<close>

fun endsTick :: "connection \<Rightarrow> move \<Rightarrow> bool" where
  "endsTick c (StatsStep env) = (statsAt (statsLoopVars c) = AtDeleteTxOK)"
| "endsTick c x = False"

text \<open>
  A schedule is on time when every move is possible, the clock readings of the moves do
  not go back (\<open>prev\<close> is the latest so far), and each is at most \<open>ttl\<close> after the last
  \<^verbatim>\<open>Delete\<close> of the latest tick (\<open>lastTick\<close>; at first the start of the schedule). The
  ticker period is half the time to live of the stats cache, so a stats loop whose
  ticker is on time runs like this, also when a single tick fails to get its UUID.
\<close>

fun onTime ::
  "('u, 'j, 'p, 'd) package \<Rightarrow> EUI64 \<Rightarrow> int \<Rightarrow> connection \<Rightarrow> int \<Rightarrow> int \<Rightarrow> move list \<Rightarrow> bool"
  where
  "onTime L g ttl c lastTick prev [] = True"
| "onTime L g ttl c lastTick prev (x # xs) =
     (possible c x \<and> prev \<le> clockOf x \<and> clockOf x \<le> lastTick + ttl
      \<and> onTime L g ttl (advance L g c x) (if endsTick c x then clockOf x else lastTick)
          (clockOf x) xs)"

text \<open>
  A schedule is exclusive when the two goroutines are never busy with the counters at
  the same time: no frame is counted while a tick reads and deletes, and no tick starts
  to read while a frame is being counted. The code takes no lock that would make its
  schedules exclusive.
\<close>

fun exclusive ::
  "('u, 'j, 'p, 'd) package \<Rightarrow> EUI64 \<Rightarrow> connection \<Rightarrow> move list \<Rightarrow> bool" where
  "exclusive L g c [] = True"
| "exclusive L g c (x # xs) =
     (\<not> (statsBusy (advance L g c x) \<and> readBusy (advance L g c x))
      \<and> exclusive L g (advance L g c x) xs)"

text \<open>
  The book-keeping of a schedule: \<open>n\<close> is the number of uplink frames read since a tick
  last began to read the counters, \<open>m\<close> the number that the tick in progress has to
  report. A tick takes over \<open>n\<close> with its first \<^verbatim>\<open>Get\<close> and reports with its callback.
  \<open>reported\<close> lists what the ticks of the schedule have to report, \<open>unreported\<close> is what is
  left at its end, and \<open>uplinkFrames\<close> is the number of uplink frames read.
\<close>

fun reported ::
  "('u, 'j, 'p, 'd) package \<Rightarrow> EUI64 \<Rightarrow> connection \<Rightarrow> nat \<Rightarrow> nat \<Rightarrow> move list \<Rightarrow> nat list"
  where
  "reported L g c n m [] = []"
| "reported L g c n m (FrameRead env mt msg # xs) =
     reported L g (advance L g c (FrameRead env mt msg))
       (if isUplinkFrame L mt msg then Suc n else n) m xs"
| "reported L g c n m (StatsStep env # xs) =
     (if statsAt (statsLoopVars c) = AtGetRx
      then reported L g (advance L g c (StatsStep env)) 0 (m + n) xs
      else if statsAt (statsLoopVars c) = AtCallback
      then m # reported L g (advance L g c (StatsStep env)) n 0 xs
      else reported L g (advance L g c (StatsStep env)) n m xs)"
| "reported L g c n m (ReadStep env # xs) = reported L g (advance L g c (ReadStep env)) n m xs"

fun unreported ::
  "('u, 'j, 'p, 'd) package \<Rightarrow> EUI64 \<Rightarrow> connection \<Rightarrow> nat \<Rightarrow> nat \<Rightarrow> move list \<Rightarrow> nat"
  where
  "unreported L g c n m [] = n + m"
| "unreported L g c n m (FrameRead env mt msg # xs) =
     unreported L g (advance L g c (FrameRead env mt msg))
       (if isUplinkFrame L mt msg then Suc n else n) m xs"
| "unreported L g c n m (StatsStep env # xs) =
     (if statsAt (statsLoopVars c) = AtGetRx
      then unreported L g (advance L g c (StatsStep env)) 0 (m + n) xs
      else if statsAt (statsLoopVars c) = AtCallback
      then unreported L g (advance L g c (StatsStep env)) n 0 xs
      else unreported L g (advance L g c (StatsStep env)) n m xs)"
| "unreported L g c n m (ReadStep env # xs) =
     unreported L g (advance L g c (ReadStep env)) n m xs"

fun uplinkFrames :: "('u, 'j, 'p, 'd) package \<Rightarrow> move list \<Rightarrow> nat" where
  "uplinkFrames L [] = 0"
| "uplinkFrames L (FrameRead env mt msg # xs) =
     (if isUplinkFrame L mt msg then Suc (uplinkFrames L xs) else uplinkFrames L xs)"
| "uplinkFrames L (x # xs) = uplinkFrames L xs"

text \<open>
  The counter under key \<open>k\<close> stands at \<open>n\<close>: absent for 0, and else stored as the 32-bit
  number with an expiration not before \<open>lim\<close>.
\<close>

definition counterHolds :: "uint32 cache \<Rightarrow> string \<Rightarrow> nat \<Rightarrow> int \<Rightarrow> bool" where
  "counterHolds c k n lim =
     (case items c k of
        None \<Rightarrow> n = 0
      | Some item \<Rightarrow>
          0 < n \<and> Object item = of_nat n \<and> 0 < Expiration item \<and> lim \<le> Expiration item)"

text \<open>
  What the counters \<^verbatim>\<open>id+":rx"\<close> and \<^verbatim>\<open>id+":rxOK"\<close> stand at, by the positions of the two
  goroutines, when \<open>n\<close> frames are counted and the tick in progress reports \<open>m\<close>.
\<close>

definition rxExpected :: "statsPos \<Rightarrow> readPos \<Rightarrow> nat \<Rightarrow> nat \<Rightarrow> nat" where
  "rxExpected p q n m =
     (if p = AtTicker \<or> p = AtGetRx \<or> p = AtCallback
      then (if q = AtSetRx then n - 1 else n)
      else if p = AtGetRxOK \<or> p = AtGetTx \<or> p = AtGetTxOK \<or> p = AtDeleteRx then m
      else 0)"

definition rxOKExpected :: "statsPos \<Rightarrow> readPos \<Rightarrow> nat \<Rightarrow> nat \<Rightarrow> nat" where
  "rxOKExpected p q n m =
     (if p = AtTicker \<or> p = AtGetRx \<or> p = AtCallback
      then (if q = AtSetRx \<or> q = AtIncrementRxOK \<or> q = AtSetRxOK then n - 1 else n)
      else if p = AtGetRxOK \<or> p = AtGetTx \<or> p = AtGetTxOK \<or> p = AtDeleteRx
              \<or> p = AtDeleteRxOK then m
      else 0)"

text \<open>
  The state of a connection in an exclusive schedule that is on time: the counters
  stand as expected, the variables of a tick that has read a counter hold what it
  reports, and a frame that had to store a counter anew is the first one counted.
\<close>

definition counting :: "EUI64 \<Rightarrow> int \<Rightarrow> connection \<Rightarrow> nat \<Rightarrow> nat \<Rightarrow> int \<Rightarrow> bool" where
  "counting g ttl c n m lim =
     (let p = statsAt (statsLoopVars c);
          q = readAt (readLoopVars c);
          v = statsLoopVars c;
          sc = statsCache (backend c)
      in gatewayStatsFunc (backend c) \<and> defaultExpiration sc = ttl
         \<and> \<not> (statsBusy c \<and> readBusy c)
         \<and> counterHolds sc (EUI64_String g @ '':rx'') (rxExpected p q n m) lim
         \<and> counterHolds sc (EUI64_String g @ '':rxOK'') (rxOKExpected p q n m) lim
         \<and> (statsBusy c \<longrightarrow> n = 0)
         \<and> (readBusy c \<longrightarrow> 0 < n)
         \<and> (q = AtSetRx \<or> q = AtSetRxOK \<longrightarrow> n = 1)
         \<and> (p = AtTicker \<longrightarrow> m = 0)
         \<and> (p = AtGetRx \<longrightarrow> m = 0 \<and> var_rx v = 0 \<and> var_rxOK v = 0)
         \<and> (p = AtGetRxOK \<longrightarrow> var_rx v = of_nat m \<and> var_rxOK v = 0)
         \<and> (p \<noteq> AtTicker \<and> p \<noteq> AtGetRx \<and> p \<noteq> AtGetRxOK \<longrightarrow>
               var_rx v = of_nat m \<and> var_rxOK v = of_nat m))"

section \<open>Properties\<close>

subsection \<open>Library functions on concrete inputs\<close>

lemma hex_roundtrip_example:
  "EUI64_UnmarshalText ''0102030405060708'' = Inr [1, 2, 3, 4, 5, 6, 7, 8]
   \<and> EUI64_String [1, 2, 3, 4, 5, 6, 7, 8] = ''0102030405060708''
   \<and> Sprintf_d 1234 = ''1234''
   \<and> strings_Split ''/gateway/0102'' CHR ''/'' = ['''', ''gateway'', ''0102'']"
  by (simp add: EUI64_UnmarshalText_def EUI64_String_def hex_EncodeToString_def hextable_def
      fromHexChar_def Sprintf_d_def decimal.simps digit_def)

subsection \<open>What each operation leaves alone\<close>

lemma emit_frame [simp]:
  "emitted (emit b ev) = emitted b @ [ev]"
  "caCert (emit b ev) = caCert b"
  "tlsCert (emit b ev) = tlsCert b"
  "tlsKey (emit b ev) = tlsKey b"
  "scheme (emit b ev) = scheme b"
  "gateways (emit b ev) = gateways b"
  "downlinkTxAckFunc (emit b ev) = downlinkTxAckFunc b"
  "uplinkFrameFunc (emit b ev) = uplinkFrameFunc b"
  "gatewayStatsFunc (emit b ev) = gatewayStatsFunc b"
  "rawPacketForwarderEventFunc (emit b ev) = rawPacketForwarderEventFunc b"
  "statsCache (emit b ev) = statsCache b"
  "diidCache (emit b ev) = diidCache b"
  "singleMode (emit b ev) = singleMode b"
  "singleGwID (emit b ev) = singleGwID b"
  "written (emit b ev) = written b"
  by (simp_all add: emit_def)

lemma incrementRxStats_frame [simp]:
  "caCert (incrementRxStats env b eui) = caCert b"
  "tlsCert (incrementRxStats env b eui) = tlsCert b"
  "tlsKey (incrementRxStats env b eui) = tlsKey b"
  "scheme (incrementRxStats env b eui) = scheme b"
  "gateways (incrementRxStats env b eui) = gateways b"
  "downlinkTxAckFunc (incrementRxStats env b eui) = downlinkTxAckFunc b"
  "uplinkFrameFunc (incrementRxStats env b eui) = uplinkFrameFunc b"
  "gatewayStatsFunc (incrementRxStats env b eui) = gatewayStatsFunc b"
  "rawPacketForwarderEventFunc (incrementRxStats env b eui) = rawPacketForwarderEventFunc b"
  "diidCache (incrementRxStats env b eui) = diidCache b"
  "singleMode (incrementRxStats env b eui) = singleMode b"
  "singleGwID (incrementRxStats env b eui) = singleGwID b"
  "emitted (incrementRxStats env b eui) = emitted b"
  "written (incrementRxStats env b eui) = written b"
  by (simp_all add: incrementRxStats_def Let_def)

lemma incrementTxOkStats_frame [simp]:
  "caCert (incrementTxOkStats env b eui) = caCert b"
  "tlsCert (incrementTxOkStats env b eui) = tlsCert b"
  "tlsKey (incrementTxOkStats env b eui) = tlsKey b"
  "scheme (incrementTxOkStats env b eui) = scheme b"
  "gateways (incrementTxOkStats env b eui) = gateways b"
  "downlinkTxAckFunc (incrementTxOkStats env b eui) = downlinkTxAckFunc b"
  "uplinkFrameFunc (incrementTxOkStats env b eui) = uplinkFrameFunc b"
  "gatewayStatsFunc (incrementTxOkStats env b eui) = gatewayStatsFunc b"
  "rawPacketForwarderEventFunc (incrementTxOkStats env b eui) = rawPacketForwarderEventFunc b"
  "diidCache (incrementTxOkStats env b eui) = diidCache b"
  "singleMode (incrementTxOkStats env b eui) = singleMode b"
  "singleGwID (incrementTxOkStats env b eui) = singleGwID b"
  "emitted (incrementTxOkStats env b eui) = emitted b"
  "written (incrementTxOkStats env b eui) = written b"
  by (simp_all add: incrementTxOkStats_def Let_def split: sum.splits option.splits prod.splits)

lemma incrementTxStats_frame [simp]:
  "caCert (incrementTxStats env b eui) = caCert b"
  "tlsCert (incrementTxStats env b eui) = tlsCert b"
  "tlsKey (incrementTxStats env b eui) = tlsKey b"
  "scheme (incrementTxStats env b eui) = scheme b"
  "gateways (incrementTxStats env b eui) = gateways b"
  "downlinkTxAckFunc (incrementTxStats env b eui) = downlinkTxAckFunc b"
  "uplinkFrameFunc (incrementTxStats env b eui) = uplinkFrameFunc b"
  "gatewayStatsFunc (incrementTxStats env b eui) = gatewayStatsFunc b"
  "rawPacketForwarderEventFunc (incrementTxStats env b eui) = rawPacketForwarderEventFunc b"
  "diidCache (incrementTxStats env b eui) = diidCache b"
  "singleMode (incrementTxStats env b eui) = singleMode b"
  "singleGwID (incrementTxStats env b eui) = singleGwID b"
  "emitted (incrementTxStats env b eui) = emitted b"
  "written (incrementTxStats env b eui) = written b"
  by (simp_all add: incrementTxStats_def Let_def split: sum.splits option.splits prod.splits)

lemma sendDataToGWviaSocket_frame [simp]:
  "caCert (snd (sendDataToGWviaSocket L env b gw mt data)) = caCert b"
  "tlsCert (snd (sendDataToGWviaSocket L env b gw mt data)) = tlsCert b"
  "tlsKey (snd (sendDataToGWviaSocket L env b gw mt data)) = tlsKey b"
  "scheme (snd (sendDataToGWviaSocket L env b gw mt data)) = scheme b"
  "gateways (snd (sendDataToGWviaSocket L env b gw mt data)) = gateways b"
  "downlinkTxAckFunc (snd (sendDataToGWviaSocket L env b gw mt data)) = downlinkTxAckFunc b"
  "uplinkFrameFunc (snd (sendDataToGWviaSocket L env b gw mt data)) = uplinkFrameFunc b"
  "gatewayStatsFunc (snd (sendDataToGWviaSocket L env b gw mt data)) = gatewayStatsFunc b"
  "rawPacketForwarderEventFunc (snd (sendDataToGWviaSocket L env b gw mt data)) = rawPacketForwarderEventFunc b"
  "statsCache (snd (sendDataToGWviaSocket L env b gw mt data)) = statsCache b"
  "diidCache (snd (sendDataToGWviaSocket L env b gw mt data)) = diidCache b"
  "singleMode (snd (sendDataToGWviaSocket L env b gw mt data)) = singleMode b"
  "singleGwID (snd (sendDataToGWviaSocket L env b gw mt data)) = singleGwID b"
  "emitted (snd (sendDataToGWviaSocket L env b gw mt data)) = emitted b"
  by (simp_all add: sendDataToGWviaSocket_def split: sum.splits option.splits prod.splits)

lemma sendToGateway_frame [simp]:
  "caCert (snd (sendToGateway L env b eui v)) = caCert b"
  "tlsCert (snd (sendToGateway L env b eui v)) = tlsCert b"
  "tlsKey (snd (sendToGateway L env b eui v)) = tlsKey b"
  "scheme (snd (sendToGateway L env b eui v)) = scheme b"
  "gateways (snd (sendToGateway L env b eui v)) = gateways b"
  "downlinkTxAckFunc (snd (sendToGateway L env b eui v)) = downlinkTxAckFunc b"
  "uplinkFrameFunc (snd (sendToGateway L env b eui v)) = uplinkFrameFunc b"
  "gatewayStatsFunc (snd (sendToGateway L env b eui v)) = gatewayStatsFunc b"
  "rawPacketForwarderEventFunc (snd (sendToGateway L env b eui v)) = rawPacketForwarderEventFunc b"
  "statsCache (snd (sendToGateway L env b eui v)) = statsCache b"
  "diidCache (snd (sendToGateway L env b eui v)) = diidCache b"
  "singleMode (snd (sendToGateway L env b eui v)) = singleMode b"
  "singleGwID (snd (sendToGateway L env b eui v)) = singleGwID b"
  "emitted (snd (sendToGateway L env b eui v)) = emitted b"
  by (simp_all add: sendToGateway_def split: sum.splits option.splits prod.splits)

lemma sendRawToGateway_frame [simp]:
  "caCert (snd (sendRawToGateway L env b eui mt data)) = caCert b"
  "tlsCert (snd (sendRawToGateway L env b eui mt data)) = tlsCert b"
  "tlsKey (snd (sendRawToGateway L env b eui mt data)) = tlsKey b"
  "scheme (snd (sendRawToGateway L env b eui mt data)) = scheme b"
  "gateways (snd (sendRawToGateway L env b eui mt data)) = gateways b"
  "downlinkTxAckFunc (snd (sendRawToGateway L env b eui mt data)) = downlinkTxAckFunc b"
  "uplinkFrameFunc (snd (sendRawToGateway L env b eui mt data)) = uplinkFrameFunc b"
  "gatewayStatsFunc (snd (sendRawToGateway L env b eui mt data)) = gatewayStatsFunc b"
  "rawPacketForwarderEventFunc (snd (sendRawToGateway L env b eui mt data)) = rawPacketForwarderEventFunc b"
  "statsCache (snd (sendRawToGateway L env b eui mt data)) = statsCache b"
  "diidCache (snd (sendRawToGateway L env b eui mt data)) = diidCache b"
  "singleMode (snd (sendRawToGateway L env b eui mt data)) = singleMode b"
  "singleGwID (snd (sendRawToGateway L env b eui mt data)) = singleGwID b"
  "emitted (snd (sendRawToGateway L env b eui mt data)) = emitted b"
  by (simp_all add: sendRawToGateway_def split: sum.splits option.splits prod.splits)

lemma SendDownlinkFrame_frame [simp]:
  "caCert (snd (SendDownlinkFrame L env b df)) = caCert b"
  "tlsCert (snd (SendDownlinkFrame L env b df)) = tlsCert b"
  "tlsKey (snd (SendDownlinkFrame L env b df)) = tlsKey b"
  "scheme (snd (SendDownlinkFrame L env b df)) = scheme b"
  "gateways (snd (SendDownlinkFrame L env b df)) = gateways b"
  "downlinkTxAckFunc (snd (SendDownlinkFrame L env b df)) = downlinkTxAckFunc b"
  "uplinkFrameFunc (snd (SendDownlinkFrame L env b df)) = uplinkFrameFunc b"
  "gatewayStatsFunc (snd (SendDownlinkFrame L env b df)) = gatewayStatsFunc b"
  "rawPacketForwarderEventFunc (snd (SendDownlinkFrame L env b df)) = rawPacketForwarderEventFunc b"
  "singleMode (snd (SendDownlinkFrame L env b df)) = singleMode b"
  "singleGwID (snd (SendDownlinkFrame L env b df)) = singleGwID b"
  "emitted (snd (SendDownlinkFrame L env b df)) = emitted b"
  by (simp_all add: SendDownlinkFrame_def Let_def case_prod_beta split: sum.splits)

lemma RawPacketForwarderCommand_frame [simp]:
  "caCert (snd (RawPacketForwarderCommand L env b pl)) = caCert b"
  "tlsCert (snd (RawPacketForwarderCommand L env b pl)) = tlsCert b"
  "tlsKey (snd (RawPacketForwarderCommand L env b pl)) = tlsKey b"
  "scheme (snd (RawPacketForwarderCommand L env b pl)) = scheme b"
  "gateways (snd (RawPacketForwarderCommand L env b pl)) = gateways b"
  "downlinkTxAckFunc (snd (RawPacketForwarderCommand L env b pl)) = downlinkTxAckFunc b"
  "uplinkFrameFunc (snd (RawPacketForwarderCommand L env b pl)) = uplinkFrameFunc b"
  "gatewayStatsFunc (snd (RawPacketForwarderCommand L env b pl)) = gatewayStatsFunc b"
  "rawPacketForwarderEventFunc (snd (RawPacketForwarderCommand L env b pl)) = rawPacketForwarderEventFunc b"
  "statsCache (snd (RawPacketForwarderCommand L env b pl)) = statsCache b"
  "diidCache (snd (RawPacketForwarderCommand L env b pl)) = diidCache b"
  "singleMode (snd (RawPacketForwarderCommand L env b pl)) = singleMode b"
  "singleGwID (snd (RawPacketForwarderCommand L env b pl)) = singleGwID b"
  "emitted (snd (RawPacketForwarderCommand L env b pl)) = emitted b"
  by (simp_all add: RawPacketForwarderCommand_def Let_def case_prod_beta)

lemma handleRawPacketForwarderEvent_frame [simp]:
  "caCert (handleRawPacketForwarderEvent env b eui pl) = caCert b"
  "tlsCert (handleRawPacketForwarderEvent env b eui pl) = tlsCert b"
  "tlsKey (handleRawPacketForwarderEvent env b eui pl) = tlsKey b"
  "scheme (handleRawPacketForwarderEvent env b eui pl) = scheme b"
  "gateways (handleRawPacketForwarderEvent env b eui pl) = gateways b"
  "downlinkTxAckFunc (handleRawPacketForwarderEvent env b eui pl) = downlinkTxAckFunc b"
  "uplinkFrameFunc (handleRawPacketForwarderEvent env b eui pl) = uplinkFrameFunc b"
  "gatewayStatsFunc (handleRawPacketForwarderEvent env b eui pl) = gatewayStatsFunc b"
  "rawPacketForwarderEventFunc (handleRawPacketForwarderEvent env b eui pl) = rawPacketForwarderEventFunc b"
  "statsCache (handleRawPacketForwarderEvent env b eui pl) = statsCache b"
  "diidCache (handleRawPacketForwarderEvent env b eui pl) = diidCache b"
  "singleMode (handleRawPacketForwarderEvent env b eui pl) = singleMode b"
  "singleGwID (handleRawPacketForwarderEvent env b eui pl) = singleGwID b"
  "written (handleRawPacketForwarderEvent env b eui pl) = written b"
  by (simp_all add: handleRawPacketForwarderEvent_def Let_def split: sum.splits option.splits prod.splits)

lemma handleVersion_frame [simp]:
  "caCert (handleVersion L env b eui pl) = caCert b"
  "tlsCert (handleVersion L env b eui pl) = tlsCert b"
  "tlsKey (handleVersion L env b eui pl) = tlsKey b"
  "scheme (handleVersion L env b eui pl) = scheme b"
  "gateways (handleVersion L env b eui pl) = gateways b"
  "downlinkTxAckFunc (handleVersion L env b eui pl) = downlinkTxAckFunc b"
  "uplinkFrameFunc (handleVersion L env b eui pl) = uplinkFrameFunc b"
  "gatewayStatsFunc (handleVersion L env b eui pl) = gatewayStatsFunc b"
  "rawPacketForwarderEventFunc (handleVersion L env b eui pl) = rawPacketForwarderEventFunc b"
  "statsCache (handleVersion L env b eui pl) = statsCache b"
  "diidCache (handleVersion L env b eui pl) = diidCache b"
  "singleMode (handleVersion L env b eui pl) = singleMode b"
  "singleGwID (handleVersion L env b eui pl) = singleGwID b"
  "emitted (handleVersion L env b eui pl) = emitted b"
  by (simp_all add: handleVersion_def)

lemma handleTimeSync_frame [simp]:
  "caCert (handleTimeSync L env b eui v) = caCert b"
  "tlsCert (handleTimeSync L env b eui v) = tlsCert b"
  "tlsKey (handleTimeSync L env b eui v) = tlsKey b"
  "scheme (handleTimeSync L env b eui v) = scheme b"
  "gateways (handleTimeSync L env b eui v) = gateways b"
  "downlinkTxAckFunc (handleTimeSync L env b eui v) = downlinkTxAckFunc b"
  "uplinkFrameFunc (handleTimeSync L env b eui v) = uplinkFrameFunc b"
  "gatewayStatsFunc (handleTimeSync L env b eui v) = gatewayStatsFunc b"
  "rawPacketForwarderEventFunc (handleTimeSync L env b eui v) = rawPacketForwarderEventFunc b"
  "statsCache (handleTimeSync L env b eui v) = statsCache b"
  "diidCache (handleTimeSync L env b eui v) = diidCache b"
  "singleMode (handleTimeSync L env b eui v) = singleMode b"
  "singleGwID (handleTimeSync L env b eui v) = singleGwID b"
  "emitted (handleTimeSync L env b eui v) = emitted b"
  by (simp_all add: handleTimeSync_def Let_def)

lemma handleUplink_frame [simp]:
  "caCert (handleUplink env b toProto) = caCert b"
  "tlsCert (handleUplink env b toProto) = tlsCert b"
  "tlsKey (handleUplink env b toProto) = tlsKey b"
  "scheme (handleUplink env b toProto) = scheme b"
  "gateways (handleUplink env b toProto) = gateways b"
  "downlinkTxAckFunc (handleUplink env b toProto) = downlinkTxAckFunc b"
  "uplinkFrameFunc (handleUplink env b toProto) = uplinkFrameFunc b"
  "gatewayStatsFunc (handleUplink env b toProto) = gatewayStatsFunc b"
  "rawPacketForwarderEventFunc (handleUplink env b toProto) = rawPacketForwarderEventFunc b"
  "statsCache (handleUplink env b toProto) = statsCache b"
  "diidCache (handleUplink env b toProto) = diidCache b"
  "singleMode (handleUplink env b toProto) = singleMode b"
  "singleGwID (handleUplink env b toProto) = singleGwID b"
  "written (handleUplink env b toProto) = written b"
  by (simp_all add: handleUplink_def split: sum.splits option.splits prod.splits)

lemma handleDownlinkTransmittedMessage_frame [simp]:
  "caCert (handleDownlinkTransmittedMessage L env b eui v) = caCert b"
  "tlsCert (handleDownlinkTransmittedMessage L env b eui v) = tlsCert b"
  "tlsKey (handleDownlinkTransmittedMessage L env b eui v) = tlsKey b"
  "scheme (handleDownlinkTransmittedMessage L env b eui v) = scheme b"
  "gateways (handleDownlinkTransmittedMessage L env b eui v) = gateways b"
  "downlinkTxAckFunc (handleDownlinkTransmittedMessage L env b eui v) = downlinkTxAckFunc b"
  "uplinkFrameFunc (handleDownlinkTransmittedMessage L env b eui v) = uplinkFrameFunc b"
  "gatewayStatsFunc (handleDownlinkTransmittedMessage L env b eui v) = gatewayStatsFunc b"
  "rawPacketForwarderEventFunc (handleDownlinkTransmittedMessage L env b eui v) = rawPacketForwarderEventFunc b"
  "statsCache (handleDownlinkTransmittedMessage L env b eui v) = statsCache b"
  "diidCache (handleDownlinkTransmittedMessage L env b eui v) = diidCache b"
  "singleMode (handleDownlinkTransmittedMessage L env b eui v) = singleMode b"
  "singleGwID (handleDownlinkTransmittedMessage L env b eui v) = singleGwID b"
  "written (handleDownlinkTransmittedMessage L env b eui v) = written b"
  by (simp_all add: handleDownlinkTransmittedMessage_def Let_def split: sum.splits option.splits prod.splits)

lemma handleMessage_frame [simp]:
  "caCert (handleMessage L env b eui mt msg) = caCert b"
  "tlsCert (handleMessage L env b eui mt msg) = tlsCert b"
  "tlsKey (handleMessage L env b eui mt msg) = tlsKey b"
  "scheme (handleMessage L env b eui mt msg) = scheme b"
  "gateways (handleMessage L env b eui mt msg) = gateways b"
  "downlinkTxAckFunc (handleMessage L env b eui mt msg) = downlinkTxAckFunc b"
  "uplinkFrameFunc (handleMessage L env b eui mt msg) = uplinkFrameFunc b"
  "gatewayStatsFunc (handleMessage L env b eui mt msg) = gatewayStatsFunc b"
  "rawPacketForwarderEventFunc (handleMessage L env b eui mt msg) = rawPacketForwarderEventFunc b"
  "diidCache (handleMessage L env b eui mt msg) = diidCache b"
  "singleMode (handleMessage L env b eui mt msg) = singleMode b"
  "singleGwID (handleMessage L env b eui mt msg) = singleGwID b"
  by (simp_all add: handleMessage_def Let_def handleUplinkDataFrame_def handleJoinRequest_def
      handleProprietaryDataFrame_def split: sum.splits)

lemma statsTick_frame [simp]:
  "caCert (statsTick env b eui) = caCert b"
  "tlsCert (statsTick env b eui) = tlsCert b"
  "tlsKey (statsTick env b eui) = tlsKey b"
  "scheme (statsTick env b eui) = scheme b"
  "gateways (statsTick env b eui) = gateways b"
  "downlinkTxAckFunc (statsTick env b eui) = downlinkTxAckFunc b"
  "uplinkFrameFunc (statsTick env b eui) = uplinkFrameFunc b"
  "gatewayStatsFunc (statsTick env b eui) = gatewayStatsFunc b"
  "rawPacketForwarderEventFunc (statsTick env b eui) = rawPacketForwarderEventFunc b"
  "diidCache (statsTick env b eui) = diidCache b"
  "singleMode (statsTick env b eui) = singleMode b"
  "singleGwID (statsTick env b eui) = singleGwID b"
  "written (statsTick env b eui) = written b"
  by (simp_all add: statsTick_def Let_def split: sum.splits option.splits prod.splits)

lemma handleRouterInfo_frame [simp]:
  "caCert (handleRouterInfo L b r c rd) = caCert b"
  "tlsCert (handleRouterInfo L b r c rd) = tlsCert b"
  "tlsKey (handleRouterInfo L b r c rd) = tlsKey b"
  "scheme (handleRouterInfo L b r c rd) = scheme b"
  "gateways (handleRouterInfo L b r c rd) = gateways b"
  "downlinkTxAckFunc (handleRouterInfo L b r c rd) = downlinkTxAckFunc b"
  "uplinkFrameFunc (handleRouterInfo L b r c rd) = uplinkFrameFunc b"
  "gatewayStatsFunc (handleRouterInfo L b r c rd) = gatewayStatsFunc b"
  "rawPacketForwarderEventFunc (handleRouterInfo L b r c rd) = rawPacketForwarderEventFunc b"
  "statsCache (handleRouterInfo L b r c rd) = statsCache b"
  "diidCache (handleRouterInfo L b r c rd) = diidCache b"
  "singleMode (handleRouterInfo L b r c rd) = singleMode b"
  "singleGwID (handleRouterInfo L b r c rd) = singleGwID b"
  "emitted (handleRouterInfo L b r c rd) = emitted b"
  by (simp_all add: handleRouterInfo_def split: sum.splits option.splits prod.splits)

lemma handleGateway_deferred_frame [simp]:
  "caCert (handleGateway_deferred b eui) = caCert b"
  "tlsCert (handleGateway_deferred b eui) = tlsCert b"
  "tlsKey (handleGateway_deferred b eui) = tlsKey b"
  "scheme (handleGateway_deferred b eui) = scheme b"
  "downlinkTxAckFunc (handleGateway_deferred b eui) = downlinkTxAckFunc b"
  "uplinkFrameFunc (handleGateway_deferred b eui) = uplinkFrameFunc b"
  "gatewayStatsFunc (handleGateway_deferred b eui) = gatewayStatsFunc b"
  "rawPacketForwarderEventFunc (handleGateway_deferred b eui) = rawPacketForwarderEventFunc b"
  "statsCache (handleGateway_deferred b eui) = statsCache b"
  "diidCache (handleGateway_deferred b eui) = diidCache b"
  "singleMode (handleGateway_deferred b eui) = singleMode b"
  "singleGwID (handleGateway_deferred b eui) = singleGwID b"
  "emitted (handleGateway_deferred b eui) = emitted b"
  "written (handleGateway_deferred b eui) = written b"
  by (simp_all add: handleGateway_deferred_def)

lemma Start_frame [simp]:
  "caCert (Start b) = caCert b"
  "tlsCert (Start b) = tlsCert b"
  "tlsKey (Start b) = tlsKey b"
  "downlinkTxAckFunc (Start b) = downlinkTxAckFunc b"
  "uplinkFrameFunc (Start b) = uplinkFrameFunc b"
  "gatewayStatsFunc (Start b) = gatewayStatsFunc b"
  "rawPacketForwarderEventFunc (Start b) = rawPacketForwarderEventFunc b"
  "statsCache (Start b) = statsCache b"
  "diidCache (Start b) = diidCache b"
  "singleMode (Start b) = singleMode b"
  "singleGwID (Start b) = singleGwID b"
  "emitted (Start b) = emitted b"
  "written (Start b) = written b"
  by (simp_all add: Start_def Let_def split: sum.splits option.splits prod.splits)

subsection \<open>The loops as runs\<close>

lemma readLoop_run:
  "readLoop L b g frames = run L b (map (\<lambda>(env, mt, msg). Message env g mt msg) frames)"
  by (induction frames arbitrary: b) auto

lemma statsLoop_run:
  "statsLoop b g ticks = run L b (map (\<lambda>env. Tick env g) ticks)"
  by (induction ticks arbitrary: b) simp_all

subsection \<open>Caches\<close>

lemma cache_Get_SetDefault_same [simp]:
  "cache_Get t (SetDefault t c k x) k = Some x"
  by (simp add: cache_Get_def SetDefault_def cache_Set_def Let_def)

lemma tinyGateway_String [simp]: "EUI64_String tinyGateway = ''0102030405060708''"
  by (simp add: tinyGateway_def EUI64_String_def hex_EncodeToString_def hextable_def)

lemma copy8_tinyGateway [simp]: "copy8 tinyGateway = tinyGateway"
  by (simp add: copy8_def tinyGateway_def)

subsection \<open>Raw commands\<close>

lemma sendRawToGateway_written:
  "written (snd (sendRawToGateway L env b eui mt data)) =
     written b @ (case gateways b eui of
                    None \<Rightarrow> []
                  | Some gw \<Rightarrow> (case conn gw of None \<Rightarrow> [] | Some c \<Rightarrow> [(c, mt, data)]))"
  by (simp add: sendRawToGateway_def gateways_get_def sendDataToGWviaSocket_def
      split: option.splits)

text \<open>
  Claim C8. \<^verbatim>\<open>RawPacketForwarderCommand\<close>: with an empty payload the call returns an
  error and leaves the backend as it was, so nothing is written. With any other payload
  the only frame it writes goes to the socket registered for the gateway and carries the
  payload unchanged, as a text frame when the first byte is an opening brace (123) and
  as a binary frame otherwise; it writes nothing when the gateway has no socket.
\<close>

theorem RawPacketForwarderCommand_frames:
  "(cmd_Payload pl = [] \<longrightarrow>
      fst (RawPacketForwarderCommand L env b pl) \<noteq> None
      \<and> snd (RawPacketForwarderCommand L env b pl) = b)
   \<and> (cmd_Payload pl \<noteq> [] \<longrightarrow>
      written (snd (RawPacketForwarderCommand L env b pl)) =
        written b @
        (case gateways b (copy8 (cmd_GatewayId pl)) of
           None \<Rightarrow> []
         | Some gw \<Rightarrow>
             (case conn gw of
                None \<Rightarrow> []
              | Some c \<Rightarrow>
                  [(c, if hd (cmd_Payload pl) = 123 then TextMessage else BinaryMessage,
                    cmd_Payload pl)])))"
proof -
  have pre: "HasPrefix p [123::byte] = (hd p = 123)" if "p \<noteq> []" for p
    using that by (cases p) (simp_all add: HasPrefix_def)
  show ?thesis
    using sendRawToGateway_written [of L env b "copy8 (cmd_GatewayId pl)" _ "cmd_Payload pl"]
    by (simp add: RawPacketForwarderCommand_def Let_def pre case_prod_beta)
qed

lemma tinyConnected_fields [simp]:
  "gateways tinyConnected tinyGateway = Some \<lparr>conn = Some 5\<rparr>"
  "emitted tinyConnected = []" "written tinyConnected = []"
  "downlinkTxAckFunc tinyConnected" "uplinkFrameFunc tinyConnected"
  "gatewayStatsFunc tinyConnected" "rawPacketForwarderEventFunc tinyConnected"
  "\<not> singleMode tinyConnected"
  "statsCache tinyConnected = cache_New 60000000000"
  "diidCache tinyConnected = cache_New time_Minute"
  by (simp_all add: tinyConnected_def tinyBackend_def tinyGateway_def)

theorem RawPacketForwarderCommand_frames_witness:
  "fst (RawPacketForwarderCommand tinyPackage (tinyEnv 0) tinyConnected
          \<lparr>cmd_GatewayId = tinyGateway, cmd_RawId = [], cmd_Payload = []\<rparr>) \<noteq> None
   \<and> written (snd (RawPacketForwarderCommand tinyPackage (tinyEnv 0) tinyConnected
          \<lparr>cmd_GatewayId = tinyGateway, cmd_RawId = [], cmd_Payload = [123, 125]\<rparr>))
       = [(5, TextMessage, [123, 125])]
   \<and> written (snd (RawPacketForwarderCommand tinyPackage (tinyEnv 0) tinyConnected
          \<lparr>cmd_GatewayId = tinyGateway, cmd_RawId = [], cmd_Payload = [0, 123]\<rparr>))
       = [(5, BinaryMessage, [0, 123])]"
proof -
  have a: "fst (RawPacketForwarderCommand tinyPackage (tinyEnv 0) tinyConnected
          \<lparr>cmd_GatewayId = tinyGateway, cmd_RawId = [], cmd_Payload = []\<rparr>) \<noteq> None"
    using RawPacketForwarderCommand_frames [of "\<lparr>cmd_GatewayId = tinyGateway, cmd_RawId = [], cmd_Payload = []\<rparr>" tinyPackage "tinyEnv 0" tinyConnected]
    by simp
  have b: "written (snd (RawPacketForwarderCommand tinyPackage (tinyEnv 0) tinyConnected
          \<lparr>cmd_GatewayId = tinyGateway, cmd_RawId = [], cmd_Payload = [123, 125]\<rparr>))
       = [(5, TextMessage, [123, 125])]"
    using RawPacketForwarderCommand_frames [of "\<lparr>cmd_GatewayId = tinyGateway, cmd_RawId = [], cmd_Payload = [123, 125]\<rparr>" tinyPackage "tinyEnv 0" tinyConnected]
    by simp
  have c: "written (snd (RawPacketForwarderCommand tinyPackage (tinyEnv 0) tinyConnected
          \<lparr>cmd_GatewayId = tinyGateway, cmd_RawId = [], cmd_Payload = [0, 123]\<rparr>))
       = [(5, BinaryMessage, [0, 123])]"
    using RawPacketForwarderCommand_frames [of "\<lparr>cmd_GatewayId = tinyGateway, cmd_RawId = [], cmd_Payload = [0, 123]\<rparr>" tinyPackage "tinyEnv 0" tinyConnected]
    by simp
  from a b c show ?thesis by blast
qed

subsection \<open>Downlinks\<close>

lemma SendDownlinkFrame_state:
  assumes "assignToken env df0 = Inr df" and "DownlinkFrameFromProto L df = Inr pl"
  shows "statsCache (snd (SendDownlinkFrame L env b df0)) =
           statsCache (incrementTxStats env b (copy8 (df_GatewayId df)))"
    and "diidCache (snd (SendDownlinkFrame L env b df0)) =
           SetDefault (clock env) (diidCache b) (Sprintf_d (df_Token df)) (df_DownlinkId df)"
  using assms by (simp_all add: SendDownlinkFrame_def Let_def case_prod_beta)

lemma incrementTxStats_tx:
  "items (statsCache b) (EUI64_String g @ ''tx'') = None \<Longrightarrow>
     cache_Get (clock env) (statsCache (incrementTxStats env b g)) (EUI64_String g @ '':tx'') = Some 1"
  "items (statsCache b) (EUI64_String g @ ''tx'') = Some item \<Longrightarrow> \<not> Expired (clock env) item \<Longrightarrow>
     cache_Get (clock env) (statsCache (incrementTxStats env b g)) (EUI64_String g @ ''tx'')
       = Some (Object item + 1)"
  by (auto simp add: incrementTxStats_def IncrementUint32_def Let_def Expired_def
      cache_Get_def [of _ "_\<lparr>items := _\<rparr>"] split: if_splits)


lemma tinyDownlink_fields [simp]:
  "df_Token (tinyDownlink t) = t" "df_GatewayId (tinyDownlink t) = tinyGateway"
  "df_DownlinkId (tinyDownlink t) = replicate 15 0 @ [42]"
  "df_PhyPayload (tinyDownlink t) = [1, 2, 3]"
  by (simp_all add: tinyDownlink_def)

lemma tinyEnv_fields [simp]:
  "clock (tinyEnv t) = t" "newUUID (tinyEnv t) = Inr (replicate 16 7)"
  "randRead (tinyEnv t) = Inr (18, 52)" "writeResult (tinyEnv t) = None"
  by (simp_all add: tinyEnv_def)

lemma tinyBackend_fields [simp]:
  "gateways tinyBackend = Map.empty" "emitted tinyBackend = []" "written tinyBackend = []"
  "downlinkTxAckFunc tinyBackend" "uplinkFrameFunc tinyBackend" "gatewayStatsFunc tinyBackend"
  "rawPacketForwarderEventFunc tinyBackend" "\<not> singleMode tinyBackend"
  "statsCache tinyBackend = cache_New 60000000000" "diidCache tinyBackend = cache_New time_Minute"
  by (simp_all add: tinyBackend_def)

lemma tinyPackage_fields [simp]:
  "err tinyPackage = None"
  "GetMessageType tinyPackage = tinyMessageType"
  "DownlinkFrameFromProto tinyPackage df = Inr (df_PhyPayload df)"
  "marshal_DownlinkFrame tinyPackage pl = Inr pl"
  "DownlinkTransmittedToProto tinyPackage eui v =
     Inr \<lparr>ack_GatewayId = eui, ack_Token = DIID v, ack_DownlinkId = []\<rparr>"
  by (simp_all add: tinyPackage_def)

lemma tiny_assignToken [simp]: "assignToken (tinyEnv t) (tinyDownlink 7) = Inr (tinyDownlink 7)"
  by (simp add: assignToken_def)

lemma Sprintf_d_7 [simp]: "Sprintf_d 7 = ''7''"
  by (simp add: Sprintf_d_def decimal.simps digit_def)


subsection \<open>Dispatcher\<close>

lemma messageTypes_distinct:
  "VersionMessage \<noteq> UplinkDataFrameMessage" "VersionMessage \<noteq> JoinRequestMessage"
  "VersionMessage \<noteq> ProprietaryDataFrameMessage" "VersionMessage \<noteq> DownlinkTransmittedMessage"
  "VersionMessage \<noteq> TimeSyncMessage" "UplinkDataFrameMessage \<noteq> JoinRequestMessage"
  "UplinkDataFrameMessage \<noteq> ProprietaryDataFrameMessage"
  "UplinkDataFrameMessage \<noteq> DownlinkTransmittedMessage"
  "UplinkDataFrameMessage \<noteq> TimeSyncMessage" "JoinRequestMessage \<noteq> ProprietaryDataFrameMessage"
  "JoinRequestMessage \<noteq> DownlinkTransmittedMessage" "JoinRequestMessage \<noteq> TimeSyncMessage"
  "ProprietaryDataFrameMessage \<noteq> DownlinkTransmittedMessage"
  "ProprietaryDataFrameMessage \<noteq> TimeSyncMessage" "DownlinkTransmittedMessage \<noteq> TimeSyncMessage"
  by (simp_all add: VersionMessage_def UplinkDataFrameMessage_def JoinRequestMessage_def
      ProprietaryDataFrameMessage_def DownlinkTransmittedMessage_def TimeSyncMessage_def)

lemma handleMessage_undecodable:
  assumes "mt \<noteq> BinaryMessage" and "GetMessageType L msg = Inr t" and "typedDecodeFails L t msg"
  shows "handleMessage L env b eui mt msg =
           (if uplinkMessageType t then incrementRxStats env b eui
            else if t = DownlinkTransmittedMessage then incrementTxOkStats env b eui
            else b)"
  using assms messageTypes_distinct
  by (auto simp add: handleMessage_def typedDecodeFails_def uplinkMessageType_def Let_def isl_def)

lemma handleMessage_unknown:
  assumes "mt \<noteq> BinaryMessage" and "GetMessageType L msg = Inr t" and "\<not> knownMessageType t"
  shows "handleMessage L env b eui mt msg = handleRawPacketForwarderEvent env b eui msg"
  using assms
  by (simp add: handleMessage_def knownMessageType_def uplinkMessageType_def)

text \<open>
  Claim C7. Decode failures are not fatal. For a text frame: when the message type
  cannot be read, the frame is dropped and the backend is as it was; when the typed
  decoding fails, nothing is handed to the integration, nothing is written and the
  registry is untouched (the frame only bumps the rx counters for the uplink types and
  the txOK counter for \<^verbatim>\<open>dntxed\<close>, which happens before the decoding). In both cases
  the read loop goes on: over such a frame and a second frame it ends in the state in
  which the dispatcher leaves the second frame. A frame whose message type is none of
  the six known ones is forwarded as a raw packet-forwarder event with the frame as
  payload, by the dispatcher and so by the read loop over that frame.
\<close>

theorem decode_failures_are_not_fatal:
  assumes "mt \<noteq> BinaryMessage"
  shows "(isl (GetMessageType L msg) \<longrightarrow>
            handleMessage L env b eui mt msg = b
            \<and> readLoop L b eui [(env, mt, msg), (env', mt', msg')]
                = handleMessage L env' b eui mt' msg')
    \<and> (\<forall>t. GetMessageType L msg = Inr t \<and> typedDecodeFails L t msg \<longrightarrow>
          handleMessage L env b eui mt msg =
            (if uplinkMessageType t then incrementRxStats env b eui
             else if t = DownlinkTransmittedMessage then incrementTxOkStats env b eui
             else b)
          \<and> emitted (handleMessage L env b eui mt msg) = emitted b
          \<and> written (handleMessage L env b eui mt msg) = written b
          \<and> gateways (handleMessage L env b eui mt msg) = gateways b
          \<and> readLoop L b eui [(env, mt, msg), (env', mt', msg')]
              = handleMessage L env'
                  (if uplinkMessageType t then incrementRxStats env b eui
                   else if t = DownlinkTransmittedMessage then incrementTxOkStats env b eui
                   else b) eui mt' msg')
    \<and> (\<forall>t rawID. GetMessageType L msg = Inr t \<and> \<not> knownMessageType t
          \<and> newUUID env = Inr rawID \<and> rawPacketForwarderEventFunc b \<longrightarrow>
          handleMessage L env b eui mt msg =
            emit b (EvRawPacketForwarderEvent
                      \<lparr>ev_GatewayId = eui, ev_RawId = rawID, ev_Payload = msg\<rparr>)
          \<and> readLoop L b eui [(env, mt, msg)] =
              emit b (EvRawPacketForwarderEvent
                        \<lparr>ev_GatewayId = eui, ev_RawId = rawID, ev_Payload = msg\<rparr>))
    \<and> readLoop L b eui ((env, mt, msg) # rest) =
        readLoop L (handleMessage L env b eui mt msg) eui rest"
proof -
  have 1: "handleMessage L env b eui mt msg = b" if "isl (GetMessageType L msg)"
    using assms that by (auto simp add: handleMessage_def isl_def)
  have 2: "handleMessage L env b eui mt msg =
            (if uplinkMessageType t then incrementRxStats env b eui
             else if t = DownlinkTransmittedMessage then incrementTxOkStats env b eui
             else b)
          \<and> emitted (handleMessage L env b eui mt msg) = emitted b
          \<and> written (handleMessage L env b eui mt msg) = written b
          \<and> gateways (handleMessage L env b eui mt msg) = gateways b"
    if "GetMessageType L msg = Inr t" and "typedDecodeFails L t msg" for t
    using handleMessage_undecodable [OF assms that, of env b eui] by simp
  have 3: "handleMessage L env b eui mt msg =
            emit b (EvRawPacketForwarderEvent
                      \<lparr>ev_GatewayId = eui, ev_RawId = rawID, ev_Payload = msg\<rparr>)"
    if "GetMessageType L msg = Inr t" and "\<not> knownMessageType t"
      and "newUUID env = Inr rawID" and "rawPacketForwarderEventFunc b" for t rawID
    using handleMessage_unknown [OF assms that(1,2), of env b eui] that(3,4)
    by (simp add: handleRawPacketForwarderEvent_def)
  have 4: "readLoop L b eui [(env, mt, msg), (env', mt', msg')]
             = handleMessage L env' (handleMessage L env b eui mt msg) eui mt' msg'"
    "readLoop L b eui [(env, mt, msg)] = handleMessage L env b eui mt msg"
    by simp_all
  show ?thesis
    using 1 2 3 unfolding 4 by simp
qed

lemma tinyMessageType_simps [simp]:
  "tinyMessageType [] = Inl ''unexpected end of JSON input''"
  "tinyMessageType [2] = Inr ''updf''"
  "tinyMessageType [9, 0] = Inr ''other''"
  by (simp_all add: tinyMessageType_def)

theorem decode_failures_are_not_fatal_witness:
  "handleMessage tinyPackage (tinyEnv 0) tinyConnected tinyGateway TextMessage [] = tinyConnected
   \<and> handleMessage tinyPackage (tinyEnv 0) tinyConnected tinyGateway TextMessage [2]
       = incrementRxStats (tinyEnv 0) tinyConnected tinyGateway
   \<and> emitted (handleMessage tinyPackage (tinyEnv 0) tinyConnected tinyGateway TextMessage [2]) = []
   \<and> handleMessage tinyPackage (tinyEnv 0) tinyConnected tinyGateway TextMessage [9, 0]
       = emit tinyConnected (EvRawPacketForwarderEvent
           \<lparr>ev_GatewayId = tinyGateway, ev_RawId = replicate 16 7, ev_Payload = [9, 0]\<rparr>)
   \<and> readLoop tinyPackage tinyConnected tinyGateway
        [(tinyEnv 0, TextMessage, []), (tinyEnv 1, TextMessage, [9, 0])]
       = emit tinyConnected (EvRawPacketForwarderEvent
           \<lparr>ev_GatewayId = tinyGateway, ev_RawId = replicate 16 7, ev_Payload = [9, 0]\<rparr>)
   \<and> emitted (readLoop tinyPackage tinyConnected tinyGateway
        [(tinyEnv 0, TextMessage, [2]), (tinyEnv 1, TextMessage, [9, 0])])
       = [EvRawPacketForwarderEvent
           \<lparr>ev_GatewayId = tinyGateway, ev_RawId = replicate 16 7, ev_Payload = [9, 0]\<rparr>]"
proof -
  have mt: "TextMessage \<noteq> BinaryMessage"
    by (simp add: TextMessage_def BinaryMessage_def)
  have f: "typedDecodeFails tinyPackage ''updf'' [2]"
    by (simp add: typedDecodeFails_def UplinkDataFrameMessage_def tinyPackage_def tinyDecode_def)
  have u: "uplinkMessageType ''updf''"
    by (simp add: uplinkMessageType_def UplinkDataFrameMessage_def)
  have k: "\<not> knownMessageType ''other''"
    by (simp add: knownMessageType_def uplinkMessageType_def VersionMessage_def
        UplinkDataFrameMessage_def JoinRequestMessage_def ProprietaryDataFrameMessage_def
        DownlinkTransmittedMessage_def TimeSyncMessage_def)
  have g: "GetMessageType tinyPackage = tinyMessageType"
    by (simp add: tinyPackage_def)
  have e: "newUUID (tinyEnv 0) = Inr (replicate 16 7)" "rawPacketForwarderEventFunc tinyConnected"
    "emitted tinyConnected = []"
    by (simp_all add: tinyEnv_def tinyConnected_def tinyBackend_def)
  note T = decode_failures_are_not_fatal [OF mt, of tinyPackage _ "tinyEnv 0" tinyConnected tinyGateway
      "tinyEnv 1" TextMessage "[9, 0]" "[]"]
  have 3: "handleMessage tinyPackage (tinyEnv t) b tinyGateway TextMessage [9, 0]
       = emit b (EvRawPacketForwarderEvent
           \<lparr>ev_GatewayId = tinyGateway, ev_RawId = replicate 16 7, ev_Payload = [9, 0]\<rparr>)"
    if "rawPacketForwarderEventFunc b" for t b
  proof -
    have "GetMessageType tinyPackage [9, 0] = Inr ''other'' \<and> \<not> knownMessageType ''other''
        \<and> newUUID (tinyEnv t) = Inr (replicate 16 7) \<and> rawPacketForwarderEventFunc b"
      using k that by (simp add: g)
    with decode_failures_are_not_fatal [OF mt, of tinyPackage "[9, 0]" "tinyEnv t" b tinyGateway
        "tinyEnv 1" TextMessage "[9, 0]" "[]",
        THEN conjunct2, THEN conjunct2, THEN conjunct1, THEN spec, THEN spec,
        of "''other''" "replicate 16 7"]
    show ?thesis
      by blast
  qed
  have 1: "handleMessage tinyPackage (tinyEnv 0) tinyConnected tinyGateway TextMessage [] = tinyConnected
      \<and> readLoop tinyPackage tinyConnected tinyGateway
          [(tinyEnv 0, TextMessage, []), (tinyEnv 1, TextMessage, [9, 0])]
        = handleMessage tinyPackage (tinyEnv 1) tinyConnected tinyGateway TextMessage [9, 0]"
  proof -
    have "isl (GetMessageType tinyPackage [])"
      by (simp add: g)
    with T [of "[]", THEN conjunct1] show ?thesis
      by (rule mp)
  qed
  have 2: "handleMessage tinyPackage (tinyEnv 0) tinyConnected tinyGateway TextMessage [2]
       = incrementRxStats (tinyEnv 0) tinyConnected tinyGateway
       \<and> emitted (handleMessage tinyPackage (tinyEnv 0) tinyConnected tinyGateway TextMessage [2]) = []
       \<and> readLoop tinyPackage tinyConnected tinyGateway
          [(tinyEnv 0, TextMessage, [2]), (tinyEnv 1, TextMessage, [9, 0])]
        = handleMessage tinyPackage (tinyEnv 1)
            (incrementRxStats (tinyEnv 0) tinyConnected tinyGateway) tinyGateway TextMessage [9, 0]"
  proof -
    have "GetMessageType tinyPackage [2] = Inr ''updf'' \<and> typedDecodeFails tinyPackage ''updf'' [2]"
      using f by (simp add: g)
    with T [of "[2]", THEN conjunct2, THEN conjunct1, THEN spec, of "''updf''"]
    have "handleMessage tinyPackage (tinyEnv 0) tinyConnected tinyGateway TextMessage [2] =
            (if uplinkMessageType ''updf'' then incrementRxStats (tinyEnv 0) tinyConnected tinyGateway
             else if ''updf'' = DownlinkTransmittedMessage
                  then incrementTxOkStats (tinyEnv 0) tinyConnected tinyGateway
             else tinyConnected)
          \<and> emitted (handleMessage tinyPackage (tinyEnv 0) tinyConnected tinyGateway TextMessage [2])
               = emitted tinyConnected
          \<and> readLoop tinyPackage tinyConnected tinyGateway
              [(tinyEnv 0, TextMessage, [2]), (tinyEnv 1, TextMessage, [9, 0])]
            = handleMessage tinyPackage (tinyEnv 1)
                (if uplinkMessageType ''updf'' then incrementRxStats (tinyEnv 0) tinyConnected tinyGateway
                 else if ''updf'' = DownlinkTransmittedMessage
                      then incrementTxOkStats (tinyEnv 0) tinyConnected tinyGateway
                 else tinyConnected) tinyGateway TextMessage [9, 0]"
      by blast
    then show ?thesis
      using u e(3) by simp
  qed
  have r: "rawPacketForwarderEventFunc (incrementRxStats (tinyEnv 0) tinyConnected tinyGateway)"
    "emitted (incrementRxStats (tinyEnv 0) tinyConnected tinyGateway) = []"
    by simp_all
  have 5: "readLoop tinyPackage tinyConnected tinyGateway
        [(tinyEnv 0, TextMessage, []), (tinyEnv 1, TextMessage, [9, 0])]
       = emit tinyConnected (EvRawPacketForwarderEvent
           \<lparr>ev_GatewayId = tinyGateway, ev_RawId = replicate 16 7, ev_Payload = [9, 0]\<rparr>)"
    using 1 3 [of tinyConnected 1] by simp
  have 6: "emitted (readLoop tinyPackage tinyConnected tinyGateway
        [(tinyEnv 0, TextMessage, [2]), (tinyEnv 1, TextMessage, [9, 0])])
       = [EvRawPacketForwarderEvent
           \<lparr>ev_GatewayId = tinyGateway, ev_RawId = replicate 16 7, ev_Payload = [9, 0]\<rparr>]"
    using 2 3 [OF r(1), of 1] r(2) by (simp add: emit_def)
  from 1 2 3 [of tinyConnected 0] 5 6 show ?thesis
    by simp
qed

subsection \<open>Router info\<close>

lemma step_certs [simp]:
  "caCert (step L b x) = caCert b" "tlsCert (step L b x) = tlsCert b"
  "tlsKey (step L b x) = tlsKey b"
  by (cases x; simp add: SetDownlinkTxAckFunc_def SetGatewayStatsFunc_def SetUplinkFrameFunc_def
      SetRawPacketForwarderEventFunc_def handleGateway_setup_def
      split: sum.splits option.splits prod.splits)+

lemma run_certs [simp]:
  "caCert (run L b ops) = caCert b" "tlsCert (run L b ops) = tlsCert b"
  "tlsKey (run L b ops) = tlsKey b"
  by (induction ops arbitrary: b) simp_all

lemma Start_scheme:
  "scheme (Start b) =
     (if tlsCert b = [] \<and> tlsKey b = [] \<and> caCert b = [] then scheme b else ''wss'')"
  by (auto simp add: Start_def Let_def split: sum.splits)

lemma step_scheme:
  "scheme (step L b x) =
     (if x = StartBackend \<and> \<not> (tlsCert b = [] \<and> tlsKey b = [] \<and> caCert b = [])
      then ''wss'' else scheme b)"
  by (cases x; simp add: SetDownlinkTxAckFunc_def SetGatewayStatsFunc_def SetUplinkFrameFunc_def
      SetRawPacketForwarderEventFunc_def handleGateway_setup_def Start_scheme
      split: sum.splits option.splits prod.splits)

lemma run_scheme_started:
  assumes "scheme b = (if tlsCert b = [] \<and> tlsKey b = [] \<and> caCert b = [] then ''ws'' else ''wss'')"
  shows "scheme (run L b ops) = scheme b"
  using assms by (induction ops arbitrary: b) (simp_all add: step_scheme)

lemma run_scheme:
  assumes "scheme b = ''ws''" and "StartBackend \<in> set ops"
  shows "scheme (run L b ops) =
           (if tlsCert b = [] \<and> tlsKey b = [] \<and> caCert b = [] then ''ws'' else ''wss'')"
  using assms
proof (induction ops arbitrary: b)
  case Nil
  then show ?case by simp
next
  case (Cons x xs)
  show ?case
  proof (cases "x = StartBackend")
    case True
    have "scheme (step L b x) =
            (if tlsCert (step L b x) = [] \<and> tlsKey (step L b x) = [] \<and> caCert (step L b x) = []
             then ''ws'' else ''wss'')"
      using True Cons.prems(1) by (auto simp add: Start_scheme)
    from run_scheme_started [OF this, of L xs] show ?thesis
      using True Cons.prems(1) by (auto simp add: Start_scheme)
  next
    case False
    then have "scheme (step L b x) = ''ws''" and "StartBackend \<in> set xs"
      using Cons.prems by (simp_all add: step_scheme)
    from Cons.IH [OF this] show ?thesis by simp
  qed
qed

lemma NewBackend_fields:
  assumes "NewBackend su conf = Inr b"
  shows "scheme b = ''ws''" and "caCert b = conf_CACert conf" and "tlsCert b = conf_TLSCert conf"
    and "tlsKey b = conf_TLSKey conf" and "singleMode b = conf_Single_Enabled conf"
    and "defaultExpiration (diidCache b) = time_Minute"
    and "gateways b = Map.empty"
  using assms
  by (auto simp add: NewBackend_def Let_def cache_New_def time_Minute_def
      split: sum.splits option.splits if_splits)

text \<open>
  Claim C6. The router-info response. On a backend that was constructed by
  \<^verbatim>\<open>NewBackend\<close> and has been started, a request for router \<open>E\<close> that was read makes the
  handler write exactly one text frame, the encoded response; in the response
  \<^verbatim>\<open>Router\<close> and \<^verbatim>\<open>Muxs\<close> are \<open>E\<close>. When the peer presented a certificate whose
  Common Name does not parse as an EUI-64 equal to \<open>E\<close>, the URI is empty and the error
  is not; otherwise the URI is scheme, host, \<^verbatim>\<open>/gateway/\<close> and \<open>E\<close> in hex, where the
  scheme is \<^verbatim>\<open>wss\<close> when a TLS input is configured and \<^verbatim>\<open>ws\<close> when not.
\<close>

theorem handleRouterInfo_response:
  assumes "NewBackend su conf = Inr b0" and "StartBackend \<in> set ops" and "b = run L b0 ops"
    and "marshal_RouterInfoResponse L (routerInfoResponse b r req) = Inr bb"
  shows "handleRouterInfo L b r c (Inr req) = b\<lparr>written := written b @ [(c, TextMessage, bb)]\<rparr>
    \<and> Router (routerInfoResponse b r req) = req_Router req
    \<and> Muxs (routerInfoResponse b r req) = req_Router req
    \<and> (if (case peerCommonName r of None \<Rightarrow> False
                                  | Some cn \<Rightarrow> commonNameFails cn (req_Router req))
        then URI (routerInfoResponse b r req) = [] \<and> Error (routerInfoResponse b r req) \<noteq> []
        else URI (routerInfoResponse b r req) =
               (if tlsConfigured conf then ''wss'' else ''ws'') @ ''://'' @ Host r
                 @ ''/gateway/'' @ EUI64_String (req_Router req)
             \<and> Error (routerInfoResponse b r req) = [])"
proof -
  have "scheme b = (if tlsConfigured conf then ''wss'' else ''ws'')"
    using run_scheme [of b0 ops L] NewBackend_fields [OF assms(1)] assms(2,3)
    by (simp add: tlsConfigured_def)
  then show ?thesis
    using assms(4)
    by (simp add: handleRouterInfo_def routerInfoResponse_def Let_def split: option.splits)
qed

lemma tiny_NewBackend:
  "NewBackend tinyStartup tinyConfig =
     Inr (tinyBackend\<lparr>downlinkTxAckFunc := False, uplinkFrameFunc := False,
            gatewayStatsFunc := False, rawPacketForwarderEventFunc := False\<rparr>)"
  by (simp add: NewBackend_def tinyStartup_def tinyConfig_def tinyBackend_def)


theorem handleRouterInfo_response_witness:
  "handleRouterInfo tinyPackage
     (run tinyPackage
        (tinyBackend\<lparr>downlinkTxAckFunc := False, uplinkFrameFunc := False,
            gatewayStatsFunc := False, rawPacketForwarderEventFunc := False\<rparr>) [StartBackend])
     \<lparr>url_Path = ''/router-info'', Host = ''localhost:3001'', peerCommonName = None\<rparr> 9
     (Inr \<lparr>req_Router = tinyGateway\<rparr>)
   = (run tinyPackage
        (tinyBackend\<lparr>downlinkTxAckFunc := False, uplinkFrameFunc := False,
            gatewayStatsFunc := False, rawPacketForwarderEventFunc := False\<rparr>) [StartBackend])
     \<lparr>written := [(9, TextMessage,
         map (\<lambda>ch. of_nat (of_char ch)) ''ws://localhost:3001/gateway/0102030405060708'')]\<rparr>
   \<and> URI (routerInfoResponse
        (run tinyPackage
          (tinyBackend\<lparr>downlinkTxAckFunc := False, uplinkFrameFunc := False,
              gatewayStatsFunc := False, rawPacketForwarderEventFunc := False\<rparr>) [StartBackend])
        \<lparr>url_Path = ''/router-info'', Host = ''localhost:3001'',
          peerCommonName = Some ''1111111111111111''\<rparr>
        \<lparr>req_Router = tinyGateway\<rparr>) = []
   \<and> Error (routerInfoResponse
        (run tinyPackage
          (tinyBackend\<lparr>downlinkTxAckFunc := False, uplinkFrameFunc := False,
              gatewayStatsFunc := False, rawPacketForwarderEventFunc := False\<rparr>) [StartBackend])
        \<lparr>url_Path = ''/router-info'', Host = ''localhost:3001'',
          peerCommonName = Some ''1111111111111111''\<rparr>
        \<lparr>req_Router = tinyGateway\<rparr>) \<noteq> []"
proof -
  define b0 where "b0 = tinyBackend\<lparr>downlinkTxAckFunc := False, uplinkFrameFunc := False,
            gatewayStatsFunc := False, rawPacketForwarderEventFunc := False\<rparr>"
  define r where "r = \<lparr>url_Path = ''/router-info'', Host = ''localhost:3001'', peerCommonName = None\<rparr>"
  define r' where "r' = \<lparr>url_Path = ''/router-info'', Host = ''localhost:3001'',
          peerCommonName = Some ''1111111111111111''\<rparr>"
  define b where "b = run tinyPackage b0 [StartBackend]"
  have nb: "NewBackend tinyStartup tinyConfig = Inr b0"
    by (simp add: tiny_NewBackend b0_def)
  have st: "StartBackend \<in> set [StartBackend]"
    by simp
  have sch: "scheme b = ''ws''" and w: "written b = []"
    by (simp_all add: b_def b0_def Start_scheme tinyBackend_def)
  have gs: "EUI64_String tinyGateway = ''0102030405060708''"
    by simp
  have m: "marshal_RouterInfoResponse tinyPackage (routerInfoResponse b r \<lparr>req_Router = tinyGateway\<rparr>)
      = Inr (map (\<lambda>ch. of_nat (of_char ch)) ''ws://localhost:3001/gateway/0102030405060708'')"
    by (simp add: tinyPackage_def routerInfoResponse_def r_def sch gs)
  have 1: "handleRouterInfo tinyPackage b r 9 (Inr \<lparr>req_Router = tinyGateway\<rparr>)
      = b\<lparr>written := [(9, TextMessage,
           map (\<lambda>ch. of_nat (of_char ch)) ''ws://localhost:3001/gateway/0102030405060708'')]\<rparr>"
    using handleRouterInfo_response [OF nb st b_def m, of 9, THEN conjunct1]
    by (simp add: w)
  have f: "commonNameFails ''1111111111111111'' tinyGateway"
    by (simp add: commonNameFails_def EUI64_UnmarshalText_def fromHexChar_def tinyGateway_def)
  have m': "marshal_RouterInfoResponse tinyPackage (routerInfoResponse b r' \<lparr>req_Router = tinyGateway\<rparr>)
      = Inr []"
    by (simp add: tinyPackage_def routerInfoResponse_def r'_def f)
  have 2: "URI (routerInfoResponse b r' \<lparr>req_Router = tinyGateway\<rparr>) = []
      \<and> Error (routerInfoResponse b r' \<lparr>req_Router = tinyGateway\<rparr>) \<noteq> []"
    using handleRouterInfo_response [OF nb st b_def m', of 9, THEN conjunct2, THEN conjunct2,
        THEN conjunct2] f
    by (simp add: r'_def)
  from 1 2 show ?thesis
    unfolding b_def b0_def r_def r'_def by blast
qed

subsection \<open>Registry\<close>

lemma Start_gateways_live:
  assumes "gateways b E = Some gw" and "conn gw = Some c0"
  shows "gateways (Start b) E = Some gw"
  using assms
  by (auto simp add: Start_def Let_def gateways_set_def split: sum.splits option.splits if_splits)

lemma setup_rejects_live:
  assumes "gateways b E = Some gw" and "conn gw = Some c0"
    and "handleGateway_setup b r c = Inr (eui, b1)"
  shows "eui \<noteq> E \<and> gateways b1 E = Some gw"
  using assms
  by (auto simp add: handleGateway_setup_def gateways_get_def gateways_set_def
      split: sum.splits option.splits if_splits)

lemma deferred_other:
  assumes "eui \<noteq> E"
  shows "gateways (handleGateway_deferred b eui) E = gateways b E"
  using assms
  by (simp add: handleGateway_deferred_def gateways_reset_def gateways_remove_def
      split: option.splits)

lemma step_gateways_live:
  assumes "gateways b E = Some gw" and "conn gw = Some c0" and "x \<noteq> Disconnect E"
  shows "gateways (step L b x) E = Some gw"
proof (cases x)
  case StartBackend
  then show ?thesis using assms by (simp add: Start_gateways_live)
next
  case (Connect r c)
  then show ?thesis
    using assms setup_rejects_live [OF assms(1,2), of r c]
    by (auto split: sum.splits)
next
  case (Disconnect eui)
  then show ?thesis using assms by (simp add: deferred_other)
qed (use assms in \<open>simp_all add: SetDownlinkTxAckFunc_def SetGatewayStatsFunc_def
      SetUplinkFrameFunc_def SetRawPacketForwarderEventFunc_def\<close>)

lemma run_gateways_live:
  assumes "gateways b E = Some gw" and "conn gw = Some c0" and "Disconnect E \<notin> set ops"
  shows "gateways (run L b ops) E = Some gw"
  using assms
proof (induction ops arbitrary: b)
  case Nil
  then show ?case by simp
next
  case (Cons x xs)
  have "gateways (step L b x) E = Some gw"
    using Cons.prems by (intro step_gateways_live) auto
  then show ?case
    using Cons.IH [of "step L b x"] Cons.prems by simp
qed

lemma handleGateway_rejects_live:
  assumes "gateways b E = Some gw" and "conn gw = Some c0" and "urlGatewayID r = Inr E"
  shows "isl (handleGateway_setup b r c)" and "handleGateway L b r c frames = b"
    and "step L b (Connect r c) = b"
proof -
  show 1: "isl (handleGateway_setup b r c)"
    using assms by (simp add: handleGateway_setup_def gateways_get_def)
  then show "handleGateway L b r c frames = b" and "step L b (Connect r c) = b"
    by (auto simp add: handleGateway_def isl_def)
qed

text \<open>
  Claim C2. A single live connection per EUI. While the registry entry of \<open>E\<close> holds a
  connection and the deferred function of its handler (\<^verbatim>\<open>remove\<close> or \<^verbatim>\<open>reset\<close> of
  \<open>E\<close>) has not run, whatever else the backend does leaves that entry as it is; every
  further connection for \<open>E\<close> is rejected by \<^verbatim>\<open>handleGateway\<close> before it registers
  anything, and the handler returns with the backend unchanged; and \<^verbatim>\<open>set\<close> on \<open>E\<close>
  returns the already-connected error. The registry is a map, so an EUI has at most
  one entry.
\<close>

theorem single_live_connection_per_EUI:
  assumes "gateways b E = Some gw" and "conn gw = Some c0" and "Disconnect E \<notin> set ops"
  shows "gateways (run L b ops) E = Some gw
    \<and> (\<forall>r c frames. urlGatewayID r = Inr E \<longrightarrow>
          isl (handleGateway_setup (run L b ops) r c)
          \<and> handleGateway L (run L b ops) r c frames = run L b ops)
    \<and> (\<forall>entry. gateways_set (gateways (run L b ops)) E entry
                  = Inl ''gateway is already connected'')"
proof -
  have g: "gateways (run L b ops) E = Some gw"
    using assms by (rule run_gateways_live)
  have "isl (handleGateway_setup (run L b ops) r c)
      \<and> handleGateway L (run L b ops) r c frames = run L b ops"
    if "urlGatewayID r = Inr E" for r c frames
    using handleGateway_rejects_live [OF g assms(2) that] by simp
  moreover have "gateways_set (gateways (run L b ops)) E entry = Inl ''gateway is already connected''"
    for entry
    using g assms(2) by (simp add: gateways_set_def)
  ultimately show ?thesis
    using g by blast
qed

lemma reconnect_after_cleanup:
  assumes "urlGatewayID r = Inr E" and "peerCommonName r = None"
    and "singleMode b \<longrightarrow> E = singleGwID b"
  shows "handleGateway_setup (handleGateway_deferred b E) r c =
           Inr (E, (handleGateway_deferred b E)
                     \<lparr>gateways := (gateways (handleGateway_deferred b E))(E \<mapsto> \<lparr>conn = Some c\<rparr>)\<rparr>)"
  using assms
  by (auto simp add: handleGateway_setup_def handleGateway_deferred_def gateways_get_def
      gateways_set_def gateways_reset_def gateways_remove_def split: option.splits)

lemma tiny_urlGatewayID:
  "urlGatewayID \<lparr>url_Path = ''/gateway/0102030405060708'', Host = ''h'', peerCommonName = None\<rparr>
     = Inr tinyGateway"
  by (simp add: urlGatewayID_def EUI64_UnmarshalText_def fromHexChar_def tinyGateway_def)

theorem single_live_connection_per_EUI_witness:
  "gateways (run tinyPackage tinyConnected
       [Connect \<lparr>url_Path = ''/gateway/0102030405060708'', Host = ''h'', peerCommonName = None\<rparr> 6,
        Tick (tinyEnv 5) tinyGateway, StartBackend]) tinyGateway = Some \<lparr>conn = Some 5\<rparr>
   \<and> handleGateway tinyPackage (run tinyPackage tinyConnected
       [Connect \<lparr>url_Path = ''/gateway/0102030405060708'', Host = ''h'', peerCommonName = None\<rparr> 6,
        Tick (tinyEnv 5) tinyGateway, StartBackend])
       \<lparr>url_Path = ''/gateway/0102030405060708'', Host = ''h'', peerCommonName = None\<rparr> 7
       [(tinyEnv 6, TextMessage, [2, 0])]
     = run tinyPackage tinyConnected
       [Connect \<lparr>url_Path = ''/gateway/0102030405060708'', Host = ''h'', peerCommonName = None\<rparr> 6,
        Tick (tinyEnv 5) tinyGateway, StartBackend]"
proof -
  have g: "gateways tinyConnected tinyGateway = Some \<lparr>conn = Some 5\<rparr>"
    by (simp add: tinyConnected_def tinyGateway_def)
  have c: "conn \<lparr>conn = Some 5\<rparr> = Some (5::nat)"
    by simp
  have n: "Disconnect tinyGateway \<notin> set
       [Connect \<lparr>url_Path = ''/gateway/0102030405060708'', Host = ''h'', peerCommonName = None\<rparr> 6,
        Tick (tinyEnv 5) tinyGateway, StartBackend]"
    by simp
  from single_live_connection_per_EUI [OF g c n, of tinyPackage] tiny_urlGatewayID
  show ?thesis
    by blast
qed


subsection \<open>Decimal keys\<close>

lemma digit_inj:
  assumes "a < 10" and "b < 10" and "digit a = digit b"
  shows "a = b"
proof -
  have "a \<in> {0, 1, 2, 3, 4, 5, 6, 7, 8, 9}" and "b \<in> {0, 1, 2, 3, 4, 5, 6, 7, 8, 9}"
    using assms(1,2) by auto
  then show ?thesis
    using assms(3) by (auto simp add: digit_def)
qed

lemma decimal_nonempty: "decimal n \<noteq> []"
  by (subst decimal.simps) simp

lemma decimal_inj: "decimal m = decimal n \<Longrightarrow> m = n"
proof (induction m arbitrary: n rule: decimal.induct)
  case (1 m)
  show ?case
  proof (cases "m < 10")
    case True
    then have m: "decimal m = [digit m]"
      by (subst decimal.simps) simp
    show ?thesis
    proof (cases "n < 10")
      case True
      then have "decimal n = [digit n]"
        by (subst decimal.simps) simp
      with m "1.prems" \<open>m < 10\<close> True show ?thesis
        by (simp add: digit_inj)
    next
      case False
      then have "decimal n = decimal (n div 10) @ [digit (n mod 10)]"
        by (subst decimal.simps) simp
      with m "1.prems" decimal_nonempty [of "n div 10"] show ?thesis
        by (cases "decimal (n div 10)") simp_all
    qed
  next
    case False
    then have m: "decimal m = decimal (m div 10) @ [digit (m mod 10)]"
      by (subst decimal.simps) simp
    show ?thesis
    proof (cases "n < 10")
      case True
      then have "decimal n = [digit n]"
        by (subst decimal.simps) simp
      with m "1.prems" decimal_nonempty [of "m div 10"] show ?thesis
        by (cases "decimal (m div 10)") simp_all
    next
      case n: False
      then have "decimal n = decimal (n div 10) @ [digit (n mod 10)]"
        by (subst decimal.simps) simp
      with m "1.prems" have "decimal (m div 10) = decimal (n div 10)"
        and "digit (m mod 10) = digit (n mod 10)"
        by simp_all
      then have "m div 10 = n div 10" and "m mod 10 = n mod 10"
        using "1.IH" [OF False] by (simp_all add: digit_inj)
      then show ?thesis
        by (metis div_mult_mod_eq)
    qed
  qed
qed

lemma Sprintf_d_inj: "Sprintf_d a = Sprintf_d b \<Longrightarrow> a = b"
  by (auto simp add: Sprintf_d_def word_unat_eq_iff dest!: decimal_inj)

subsection \<open>Token cache\<close>

lemma step_diidCache:
  assumes "\<not> reusesToken x tok"
  shows "items (diidCache (step L b x)) (Sprintf_d tok) = items (diidCache b) (Sprintf_d tok)
    \<and> defaultExpiration (diidCache (step L b x)) = defaultExpiration (diidCache b)"
proof (cases x)
  case (Downlink env df)
  then show ?thesis
    using assms
    by (auto simp add: reusesToken_def SendDownlinkFrame_def Let_def case_prod_beta
        SetDefault_def cache_Set_def dest: Sprintf_d_inj split: sum.splits)
next
  case (Connect r c)
  then show ?thesis
    by (auto simp add: handleGateway_setup_def split: sum.splits option.splits if_splits)
qed (simp_all add: SetDownlinkTxAckFunc_def SetGatewayStatsFunc_def
      SetUplinkFrameFunc_def SetRawPacketForwarderEventFunc_def)

lemma run_diidCache:
  assumes "\<forall>x\<in>set ops. \<not> reusesToken x tok"
  shows "items (diidCache (run L b ops)) (Sprintf_d tok) = items (diidCache b) (Sprintf_d tok)
    \<and> defaultExpiration (diidCache (run L b ops)) = defaultExpiration (diidCache b)"
  using assms
proof (induction ops arbitrary: b)
  case Nil
  then show ?case by simp
next
  case (Cons x xs)
  then show ?case
    using step_diidCache [of x tok L b] by simp
qed

lemma step_callbacks:
  "downlinkTxAckFunc b \<Longrightarrow> downlinkTxAckFunc (step L b x)"
  "gatewayStatsFunc b \<Longrightarrow> gatewayStatsFunc (step L b x)"
  "uplinkFrameFunc b \<Longrightarrow> uplinkFrameFunc (step L b x)"
  "rawPacketForwarderEventFunc b \<Longrightarrow> rawPacketForwarderEventFunc (step L b x)"
  by (cases x; simp add: SetDownlinkTxAckFunc_def SetGatewayStatsFunc_def SetUplinkFrameFunc_def
      SetRawPacketForwarderEventFunc_def handleGateway_setup_def
      split: sum.splits option.splits prod.splits)+

lemma run_callbacks:
  "downlinkTxAckFunc b \<Longrightarrow> downlinkTxAckFunc (run L b ops)"
  "gatewayStatsFunc b \<Longrightarrow> gatewayStatsFunc (run L b ops)"
  "uplinkFrameFunc b \<Longrightarrow> uplinkFrameFunc (run L b ops)"
  "rawPacketForwarderEventFunc b \<Longrightarrow> rawPacketForwarderEventFunc (run L b ops)"
  by (induction ops arbitrary: b) (simp_all add: step_callbacks)

lemma cache_Get_within:
  assumes "items c k = Some \<lparr>Object = x, Expiration = (if d > 0 then t0 + d else 0)\<rparr>"
    and "t1 \<le> t0 + d"
  shows "cache_Get t1 c k = Some x"
  using assms by (auto simp add: cache_Get_def)

text \<open>
  Claim C1. Token to downlink-id round trip. \<^verbatim>\<open>SendDownlinkFrame\<close> returns without error
  for a frame that gets (or carries) token \<open>T\<close> and downlink id \<open>D\<close>; any operations of
  the backend follow, none of them a downlink stored under \<open>T\<close> again; then a \<^verbatim>\<open>dntxed\<close>
  with \<^verbatim>\<open>DIID\<close> equal to \<open>T\<close> is handled at most one minute after the send. The
  acknowledgement that \<^verbatim>\<open>handleDownlinkTransmittedMessage\<close> hands to the integration
  (when the conversion succeeds and the callback is installed) carries downlink id \<open>D\<close>.
\<close>

theorem token_round_trip:
  assumes "defaultExpiration (diidCache b) = time_Minute"
    and "assignToken env df0 = Inr df"
    and "SendDownlinkFrame L env b df0 = (None, b1)"
    and "\<forall>x\<in>set ops. \<not> reusesToken x (df_Token df)"
    and "DIID v = df_Token df"
    and "clock env' \<le> clock env + time_Minute"
  shows "handleDownlinkTransmittedMessage L env' (run L b1 ops) eui v =
           (case DownlinkTransmittedToProto L eui v of
              Inl e \<Rightarrow> run L b1 ops
            | Inr txack \<Rightarrow>
                if downlinkTxAckFunc (run L b1 ops)
                then emit (run L b1 ops)
                       (EvDownlinkTXAck (txack\<lparr>ack_DownlinkId := df_DownlinkId df\<rparr>))
                else run L b1 ops)"
proof -
  obtain pl where pl: "DownlinkFrameFromProto L df = Inr pl"
    using assms(2,3) by (auto simp add: SendDownlinkFrame_def split: sum.splits)
  have "b1 = snd (SendDownlinkFrame L env b df0)"
    using assms(3) by simp
  then have "diidCache b1 =
      SetDefault (clock env) (diidCache b) (Sprintf_d (df_Token df)) (df_DownlinkId df)"
    using SendDownlinkFrame_state(2) [OF assms(2) pl] by simp
  then have "items (diidCache b1) (Sprintf_d (df_Token df)) =
      Some \<lparr>Object = df_DownlinkId df,
            Expiration = (if time_Minute > 0 then clock env + time_Minute else 0)\<rparr>"
    using assms(1) by (simp add: SetDefault_def cache_Set_def Let_def time_Minute_def)
  then have "items (diidCache (run L b1 ops)) (Sprintf_d (df_Token df)) =
      Some \<lparr>Object = df_DownlinkId df,
            Expiration = (if time_Minute > 0 then clock env + time_Minute else 0)\<rparr>"
    using run_diidCache [OF assms(4), of L b1] by simp
  from cache_Get_within [OF this assms(6)]
  show ?thesis
    using assms(5) by (simp add: handleDownlinkTransmittedMessage_def Let_def split: sum.splits)
qed


theorem token_round_trip_witness:
  "handleDownlinkTransmittedMessage tinyPackage (tinyEnv 60000001000)
     (run tinyPackage
        (snd (SendDownlinkFrame tinyPackage (tinyEnv 1000) tinyConnected (tinyDownlink 7)))
        [Downlink (tinyEnv 2000) (tinyDownlink 8), Tick (tinyEnv 3000) tinyGateway])
     tinyGateway \<lparr>DIID = 7\<rparr>
   = emit (run tinyPackage
        (snd (SendDownlinkFrame tinyPackage (tinyEnv 1000) tinyConnected (tinyDownlink 7)))
        [Downlink (tinyEnv 2000) (tinyDownlink 8), Tick (tinyEnv 3000) tinyGateway])
       (EvDownlinkTXAck
          \<lparr>ack_GatewayId = tinyGateway, ack_Token = 7, ack_DownlinkId = replicate 15 0 @ [42]\<rparr>)"
proof -
  define ops where "ops = [Downlink (tinyEnv 2000) (tinyDownlink 8), Tick (tinyEnv 3000) tinyGateway]"
  define b1 where "b1 = snd (SendDownlinkFrame tinyPackage (tinyEnv 1000) tinyConnected (tinyDownlink 7))"
  have d: "defaultExpiration (diidCache tinyConnected) = time_Minute"
    by (simp add: cache_New_def time_Minute_def)
  have a: "assignToken (tinyEnv 1000) (tinyDownlink 7) = Inr (tinyDownlink 7)"
    by simp
  have "fst (SendDownlinkFrame tinyPackage (tinyEnv 1000) tinyConnected (tinyDownlink 7)) = None"
    by (simp add: SendDownlinkFrame_def Let_def case_prod_beta sendToGateway_def
        gateways_get_def sendDataToGWviaSocket_def errors_Wrap_def)
  then have s: "SendDownlinkFrame tinyPackage (tinyEnv 1000) tinyConnected (tinyDownlink 7) = (None, b1)"
    by (simp add: b1_def prod_eq_iff)
  have r: "\<forall>x\<in>set ops. \<not> reusesToken x (df_Token (tinyDownlink 7))"
    by (simp add: ops_def reusesToken_def assignToken_def)
  have v: "DIID \<lparr>DIID = 7\<rparr> = df_Token (tinyDownlink 7)"
    by simp
  have t: "clock (tinyEnv 60000001000) \<le> clock (tinyEnv 1000) + time_Minute"
    by (simp add: time_Minute_def)
  have f: "downlinkTxAckFunc (run tinyPackage b1 ops)"
    by (rule run_callbacks) (simp add: b1_def)
  have "handleDownlinkTransmittedMessage tinyPackage (tinyEnv 60000001000)
          (run tinyPackage b1 ops) tinyGateway \<lparr>DIID = 7\<rparr>
      = emit (run tinyPackage b1 ops)
          (EvDownlinkTXAck
            \<lparr>ack_GatewayId = tinyGateway, ack_Token = 7, ack_DownlinkId = replicate 15 0 @ [42]\<rparr>)"
    using token_round_trip [OF d a s r v t, of tinyGateway] f by simp
  then show ?thesis
    unfolding ops_def b1_def .
qed

text \<open>
  Without the condition on the operations in between the round trip fails: the token
  cache is keyed by the decimal token alone. A first downlink with token 7 and an id
  ending in 42 is sent, a second downlink carries token 7 again with an id ending in 99,
  and the \<^verbatim>\<open>dntxed\<close> with \<^verbatim>\<open>DIID\<close> 7 that is handled two microseconds after the first
  send is acknowledged with the id of the second.
\<close>

theorem token_reuse_overwrites_id:
  "fst (SendDownlinkFrame tinyPackage (tinyEnv 1000) tinyConnected (tinyDownlink 7)) = None
   \<and> df_DownlinkId (tinyDownlink 7) = replicate 15 0 @ [42]
   \<and> emitted (handleDownlinkTransmittedMessage tinyPackage (tinyEnv 3000)
        (run tinyPackage
           (snd (SendDownlinkFrame tinyPackage (tinyEnv 1000) tinyConnected (tinyDownlink 7)))
           [Downlink (tinyEnv 2000) ((tinyDownlink 7)\<lparr>df_DownlinkId := replicate 15 0 @ [99]\<rparr>)])
        tinyGateway \<lparr>DIID = 7\<rparr>)
     = [EvDownlinkTXAck
          \<lparr>ack_GatewayId = tinyGateway, ack_Token = 7, ack_DownlinkId = replicate 15 0 @ [99]\<rparr>]"
  by code_simp

subsection \<open>Rx counters\<close>

lemma statsEvents_append [simp]: "statsEvents (xs @ ys) = statsEvents xs @ statsEvents ys"
  by (induction xs rule: statsEvents.induct) simp_all

lemma handleMessage_statsCache:
  "statsCache (handleMessage L env b g mt msg) =
     (if isUplinkFrame L mt msg then statsCache (incrementRxStats env b g)
      else if mt \<noteq> BinaryMessage \<and> GetMessageType L msg = Inr DownlinkTransmittedMessage
      then statsCache (incrementTxOkStats env b g)
      else statsCache b)"
  using messageTypes_distinct
  by (auto simp add: handleMessage_def isUplinkFrame_def uplinkMessageType_def Let_def
      handleUplinkDataFrame_def handleJoinRequest_def handleProprietaryDataFrame_def
      split: sum.splits)

lemma handlers_statsEvents [simp]:
  "statsEvents (emitted (handleRawPacketForwarderEvent env b g pl)) = statsEvents (emitted b)"
  "statsEvents (emitted (handleUplink env b toProto)) = statsEvents (emitted b)"
  "statsEvents (emitted (handleDownlinkTransmittedMessage L env b g v)) = statsEvents (emitted b)"
  by (simp_all add: handleRawPacketForwarderEvent_def handleUplink_def
      handleDownlinkTransmittedMessage_def Let_def split: sum.splits option.splits)

lemma handleMessage_statsEvents [simp]:
  "statsEvents (emitted (handleMessage L env b g mt msg)) = statsEvents (emitted b)"
  by (simp add: handleMessage_def Let_def handleUplinkDataFrame_def handleJoinRequest_def
      handleProprietaryDataFrame_def split: sum.splits)

lemma tiny_isUplinkFrame [simp]:
  "isUplinkFrame tinyPackage TextMessage [2, 0]"
  "isUplinkFrame tinyPackage TextMessage [3, 0]"
  "isUplinkFrame tinyPackage TextMessage [4, 0]"
  by (simp_all add: isUplinkFrame_def tinyPackage_def tinyMessageType_def uplinkMessageType_def
      UplinkDataFrameMessage_def JoinRequestMessage_def ProprietaryDataFrameMessage_def
      TextMessage_def BinaryMessage_def)

subsection \<open>Tx counters\<close>

lemma incrementTxStats_overwrites:
  assumes "items (statsCache b) (EUI64_String g @ ''tx'') = None"
  shows "statsCache (incrementTxStats env b g) =
           SetDefault (clock env) (statsCache b) (EUI64_String g @ '':tx'') 1"
  using assms by (simp add: incrementTxStats_def IncrementUint32_def Let_def)

lemma incrementTxOkStats_overwrites:
  assumes "items (statsCache b) (EUI64_String g @ ''txOK'') = None"
  shows "statsCache (incrementTxOkStats env b g) =
           SetDefault (clock env) (statsCache b) (EUI64_String g @ '':txOK'') 1"
  using assms by (simp add: incrementTxOkStats_def IncrementUint32_def Let_def)

text \<open>
  Claim C3. Downlink counter accounting does not hold in the code. The tx helpers
  increment the keys \<^verbatim>\<open>id+"tx"\<close> and \<^verbatim>\<open>id+"txOK"\<close>, which nothing ever stores, and on
  the failure store 1 under \<^verbatim>\<open>id+":tx"\<close> and \<^verbatim>\<open>id+":txOK"\<close>; the rx helper uses the
  key with the colon in both places. After two downlinks and two \<^verbatim>\<open>dntxed\<close> frames
  for one gateway the tick reports 1 and 1, where the claim says 2 and 2; the next tick
  reports 0 and 0, as the claim says.
\<close>

theorem tx_counters_stuck_at_one:
  "map (\<lambda>s. (TxPacketsReceived s, TxPacketsEmitted s))
     (statsSince tinyConnected (run tinyPackage tinyConnected
        [Downlink (tinyEnv 10) (tinyDownlink 7), Downlink (tinyEnv 20) (tinyDownlink 8),
         Message (tinyEnv 30) tinyGateway TextMessage [5, 7],
         Message (tinyEnv 40) tinyGateway TextMessage [5, 8],
         Tick (tinyEnv 50) tinyGateway, Tick (tinyEnv 60) tinyGateway]))
   = [(1, 1), (0, 0)]"
  by code_simp

subsection \<open>Sending to a gateway that is not connected\<close>

lemma send_absent_gateway:
  assumes "gateways b g = None"
  shows "sendToGateway L env b g v = (Some ''get gateway error: gateway does not exist'', b)"
    and "sendRawToGateway L env b g mt data
           = (Some ''get gateway error: gateway does not exist'', b)"
  using assms by (simp_all add: sendToGateway_def sendRawToGateway_def gateways_get_def wrapped_def)

lemma send_nil_connection:
  assumes "gateways b g = Some gw" and "conn gw = None"
  shows "sendToGateway L env b g (Inr bb)
           = (errors_Wrap (err L) ''there is no connection with the basic station'', b)"
    and "sendRawToGateway L env b g mt data
           = (errors_Wrap (err L) ''there is no connection with the basic station'', b)"
  using assms
  by (simp_all add: sendToGateway_def sendRawToGateway_def gateways_get_def
      sendDataToGWviaSocket_def)

text \<open>
  Claim C4. Not-connected downlink failure. For a gateway without registry entry the
  error is returned and nothing is written (\<open>send_absent_gateway\<close>). For an entry
  whose connection is nil the code returns \<^verbatim>\<open>errors.Wrap(err, ...)\<close> of the package-level
  \<^verbatim>\<open>err\<close>, which is nil when that variable is nil (\<open>send_nil_connection\<close>): in single
  mode, after \<^verbatim>\<open>Start\<close> and before the gateway connects, a downlink and a raw command
  for the configured gateway return no error, and nothing is written.
\<close>

theorem nil_connection_reports_no_error:
  "(case NewBackend tinyStartup
           (tinyConfig\<lparr>conf_Single_Enabled := True, conf_Single_GwID := ''0102030405060708''\<rparr>) of
      Inl e \<Rightarrow> False
    | Inr b0 \<Rightarrow>
        map_option conn (gateways (Start b0) tinyGateway) = Some None
        \<and> fst (SendDownlinkFrame tinyPackage (tinyEnv 10) (Start b0) (tinyDownlink 7)) = None
        \<and> written (snd (SendDownlinkFrame tinyPackage (tinyEnv 10) (Start b0) (tinyDownlink 7))) = []
        \<and> fst (RawPacketForwarderCommand tinyPackage (tinyEnv 20) (Start b0)
                  \<lparr>cmd_GatewayId = tinyGateway, cmd_RawId = [], cmd_Payload = [1]\<rparr>) = None)"
  by code_simp

subsection \<open>The gateway id of single mode\<close>

lemma NewBackend_single:
  assumes "NewBackend su conf = Inr b" and "conf_Single_Enabled conf"
  shows "\<exists>gwID. hex_DecodeString (conf_Single_GwID conf) = Inr gwID \<and> gwID \<noteq> []
           \<and> singleGwID b = copy8 gwID"
  using assms
  by (auto simp add: NewBackend_def Let_def split: sum.splits option.splits if_splits)

lemma NewBackend_single_rejects:
  assumes "conf_Single_Enabled conf"
    and "isl (hex_DecodeString (conf_Single_GwID conf)) \<or> conf_Single_GwID conf = []"
  shows "isl (NewBackend su conf)"
  using assms
  by (auto simp add: NewBackend_def Let_def isl_def split: sum.splits option.splits)

text \<open>
  Claim C9. Single-mode gateway id. \<^verbatim>\<open>NewBackend\<close> rejects a \<^verbatim>\<open>gw_id\<close> that is not
  hex or is empty (\<open>NewBackend_single_rejects\<close>), and on success the single EUI is
  the copy of the decoded bytes into eight bytes (\<open>NewBackend_single\<close>). It does not
  check the length, though its error message asks for eight bytes: two bytes of hex
  are accepted and padded with zeros, nine are accepted and cut to eight.
\<close>

theorem short_gw_id_is_accepted:
  "map_sum id singleGwID
     (NewBackend tinyStartup (tinyConfig\<lparr>conf_Single_Enabled := True, conf_Single_GwID := ''0102''\<rparr>))
     = Inr [1, 2, 0, 0, 0, 0, 0, 0]
   \<and> map_sum id singleGwID
     (NewBackend tinyStartup
        (tinyConfig\<lparr>conf_Single_Enabled := True, conf_Single_GwID := ''010203040506070809''\<rparr>))
     = Inr [1, 2, 3, 4, 5, 6, 7, 8]"
  by code_simp

subsection \<open>The caches keep their time to live\<close>

text \<open>No operation changes the default expiration of a cache: from \<^verbatim>\<open>NewBackend\<close> on
  it is one minute for the token cache and twice the stats interval for the stats
  cache, which is what the statements above about the two caches assume.\<close>

lemma cache_ops_ttl [simp]:
  "defaultExpiration (SetDefault t c k x) = defaultExpiration c"
  "defaultExpiration (cache_Delete c k) = defaultExpiration c"
  by (simp_all add: SetDefault_def cache_Set_def Let_def cache_Delete_def)

lemma IncrementUint32_ttl [simp]:
  "defaultExpiration (case IncrementUint32 t c k n of
                        Inl e \<Rightarrow> SetDefault t c k' x
                      | Inr (v, c') \<Rightarrow> c') = defaultExpiration c"
  by (simp add: IncrementUint32_def Let_def split: option.splits)

lemma step_ttl:
  "defaultExpiration (diidCache (step L b x)) = defaultExpiration (diidCache b)"
  "defaultExpiration (statsCache (step L b x)) = defaultExpiration (statsCache b)"
proof -
  have r: "defaultExpiration (statsCache (incrementRxStats env b g)) = defaultExpiration (statsCache b)"
    for env b g
    by (simp add: incrementRxStats_def Let_def)
  have "statsCache (incrementTxStats env b g) =
          (case IncrementUint32 (clock env) (statsCache b) (EUI64_String g @ ''tx'') 1 of
             Inl e \<Rightarrow> SetDefault (clock env) (statsCache b) (EUI64_String g @ '':tx'') 1
           | Inr (v, c') \<Rightarrow> c')"
    and "statsCache (incrementTxOkStats env b g) =
          (case IncrementUint32 (clock env) (statsCache b) (EUI64_String g @ ''txOK'') 1 of
             Inl e \<Rightarrow> SetDefault (clock env) (statsCache b) (EUI64_String g @ '':txOK'') 1
           | Inr (v, c') \<Rightarrow> c')" for env b g
    by (simp_all add: incrementTxStats_def incrementTxOkStats_def Let_def split: sum.splits)
  then have i: "defaultExpiration (statsCache (incrementTxStats env b g)) = defaultExpiration (statsCache b)"
    "defaultExpiration (statsCache (incrementTxOkStats env b g)) = defaultExpiration (statsCache b)"
    for env b g
    by simp_all
  show "defaultExpiration (diidCache (step L b x)) = defaultExpiration (diidCache b)"
    by (cases x)
      (auto simp add: SetDownlinkTxAckFunc_def SetGatewayStatsFunc_def SetUplinkFrameFunc_def
        SetRawPacketForwarderEventFunc_def handleGateway_setup_def SendDownlinkFrame_def
        Let_def case_prod_beta split: sum.splits option.splits if_splits)
  show "defaultExpiration (statsCache (step L b x)) = defaultExpiration (statsCache b)"
    by (cases x)
      (auto simp add: SetDownlinkTxAckFunc_def SetGatewayStatsFunc_def SetUplinkFrameFunc_def
        SetRawPacketForwarderEventFunc_def handleGateway_setup_def SendDownlinkFrame_def
        handleMessage_statsCache statsTick_def i r
        Let_def case_prod_beta split: sum.splits option.splits if_splits)
qed

lemma run_ttl:
  "defaultExpiration (diidCache (run L b ops)) = defaultExpiration (diidCache b)"
  "defaultExpiration (statsCache (run L b ops)) = defaultExpiration (statsCache b)"
  by (induction ops arbitrary: b) (simp_all add: step_ttl)

lemma NewBackend_ttl:
  assumes "NewBackend su conf = Inr b0"
  shows "defaultExpiration (diidCache (run L b0 ops)) = time_Minute"
    and "conf_StatsInterval conf \<noteq> 0 \<Longrightarrow>
           defaultExpiration (statsCache (run L b0 ops)) = 2 * conf_StatsInterval conf"
  using assms
  by (auto simp add: run_ttl NewBackend_def Let_def cache_New_def time_Minute_def
      split: sum.splits option.splits if_splits)

end
